theory Spec2Isabelle
  imports Complex_Main
begin

section \<open>Content model\<close>

text \<open>
  Modelled from the spec: the content classes of the \<open>simpletool.types\<close> package, which the
  tools import and which is not part of the sources. A content item is a tagged union of
  \<open>TextContent {text}\<close>, \<open>ImageContent {image, mime_type}\<close> and
  \<open>ErrorContent {code, error}\<close>; the constructor is the variant tag.
\<close>

datatype content =
    TextContent string
  | ImageContent string string
  | ErrorContent int string

section \<open>Python string primitives\<close>

text \<open>
  Strings are lists of 8-bit characters, so the model covers texts whose code points are below
  256. \<open>isspace\<close> is Python's \<open>str.isspace\<close> on that range: TAB, LF, VT, FF, CR, the
  separators FS, GS, RS, US, the blank, NEL (0x85) and the no-break space (0xA0).
\<close>

definition isspace :: "char \<Rightarrow> bool" where
  "isspace c = (of_char c \<in> {9, 10, 11, 12, 13, 28, 29, 30, 31, 32, 133, 160 :: nat})"

text \<open>
  \<open>str.split()\<close> without arguments: skip a run of whitespace, take the following run of
  non-whitespace characters as one word, repeat until the text is used up.
\<close>

function split_ws :: "string \<Rightarrow> string list" where
  "split_ws s =
     (case dropWhile isspace s of
        [] \<Rightarrow> []
      | c # cs \<Rightarrow> takeWhile (\<lambda>x. \<not> isspace x) (c # cs) # split_ws (dropWhile (\<lambda>x. \<not> isspace x) cs))"
  by pat_completeness auto
termination
proof (relation "measure length")
  show "wf (measure length)" by simp
next
  fix s :: string and c cs
  assume "dropWhile isspace s = c # cs"
  then have "length (c # cs) \<le> length s"
    by (metis length_dropWhile_le)
  moreover have "length (dropWhile (\<lambda>x. \<not> isspace x) cs) \<le> length cs"
    by (rule length_dropWhile_le)
  ultimately show "(dropWhile (\<lambda>x. \<not> isspace x) cs, s) \<in> measure length"
    by simp
qed

declare split_ws.simps [simp del]

text \<open>\<open>str(n)\<close> for a non-negative integer: its decimal digits.\<close>

definition digit_char :: "nat \<Rightarrow> char" where
  "digit_char d = char_of (48 + d)"

fun str_nat :: "nat \<Rightarrow> string" where
  "str_nat n = (if n < 10 then [digit_char n] else str_nat (n div 10) @ [digit_char (n mod 10)])"

declare str_nat.simps [simp del]

text \<open>
  \<open>str.startswith\<close>, \<open>str.endswith\<close>, \<open>str.split(sep)\<close> for a one-character separator
  (empty pieces are kept) and \<open>sep.join\<close>.
\<close>

definition startswith :: "string \<Rightarrow> string \<Rightarrow> bool" where
  "startswith s p = (take (length p) s = p)"

definition endswith :: "string \<Rightarrow> string \<Rightarrow> bool" where
  "endswith s p = (length p \<le> length s \<and> drop (length s - length p) s = p)"

fun split_acc :: "char \<Rightarrow> string \<Rightarrow> string \<Rightarrow> string list" where
  "split_acc sep acc [] = [rev acc]"
| "split_acc sep acc (c # cs) =
     (if c = sep then rev acc # split_acc sep [] cs else split_acc sep (c # acc) cs)"

definition split_on :: "char \<Rightarrow> string \<Rightarrow> string list" where
  "split_on sep s = split_acc sep [] s"

fun join :: "string \<Rightarrow> string list \<Rightarrow> string" where
  "join sep [] = []"
| "join sep [x] = x"
| "join sep (x # y # ys) = x @ sep @ join sep (y # ys)"

definition newline :: string where
  "newline = [CHR 0x0A]"

text \<open>
  \<open>str.splitlines()\<close>: a line ends at LF, CR, CR LF, VT, FF, FS, GS, RS or NEL; the
  terminators are dropped and a final terminator opens no empty last line.
\<close>

definition is_linebreak :: "char \<Rightarrow> bool" where
  "is_linebreak c = (of_char c \<in> {10, 11, 12, 13, 28, 29, 30, 133 :: nat})"

fun splitlines_acc :: "string \<Rightarrow> string \<Rightarrow> string list" where
  "splitlines_acc acc [] = (if acc = [] then [] else [rev acc])"
| "splitlines_acc acc [c] = (if is_linebreak c then [rev acc] else [rev (c # acc)])"
| "splitlines_acc acc (c # d # cs) =
     (if c = CHR 0x0D \<and> d = CHR 0x0A then rev acc # splitlines_acc [] cs
      else if is_linebreak c then rev acc # splitlines_acc [] (d # cs)
      else splitlines_acc (c # acc) (d # cs))"

definition splitlines :: "string \<Rightarrow> string list" where
  "splitlines s = splitlines_acc [] s"

section \<open>Python exceptions\<close>

text \<open>
  An exception is its class and its message \<open>str(e)\<close>. \<open>OSError\<close> stands for every
  \<open>OSError\<close> subclass other than \<open>PermissionError\<close>, \<open>Exception\<close> for every other class
  (transport errors of the HTTP client, JSON decoding errors, ...).
\<close>

datatype exn =
    PermissionError string
  | OSError string
  | ValueError string
  | Exception string

fun str_exn :: "exn \<Rightarrow> string" where
  "str_exn (PermissionError m) = m"
| "str_exn (OSError m) = m"
| "str_exn (ValueError m) = m"
| "str_exn (Exception m) = m"

section \<open>POSIX paths and the file system\<close>

text \<open>
  The tools call \<open>os.path\<close> and \<open>os\<close>, which are not code of this repository. The
  definitions of this section model them for a POSIX system: \<open>normpath\<close>, \<open>join\<close> and
  \<open>abspath\<close> follow \<open>posixpath\<close>; the file system is a table from absolute paths (as
  lists of components) to nodes. A directory carries a flag telling whether the process may
  write to it; a regular file carries two flags, whether the process may read it and
  whether it may write it, and what decoding its bytes as UTF-8 gives: the text, or the
  \<open>UnicodeDecodeError\<close> raised. There are no symbolic links, every directory may be
  searched and the disk does not fill up.
\<close>

definition initial_slashes :: "string \<Rightarrow> nat" where
  "initial_slashes path =
     (if startswith path ''/''
      then (if startswith path ''//'' \<and> \<not> startswith path ''///'' then 2 else 1)
      else 0)"

fun norm_comps :: "nat \<Rightarrow> string list \<Rightarrow> string list \<Rightarrow> string list" where
  "norm_comps ini new_comps [] = new_comps"
| "norm_comps ini new_comps (c # comps) =
     (if c = '''' \<or> c = ''.'' then norm_comps ini new_comps comps
      else if c \<noteq> ''..'' \<or> (ini = 0 \<and> new_comps = [])
                \<or> (new_comps \<noteq> [] \<and> last new_comps = ''..'')
        then norm_comps ini (new_comps @ [c]) comps
      else if new_comps \<noteq> [] then norm_comps ini (butlast new_comps) comps
      else norm_comps ini new_comps comps)"

definition normpath :: "string \<Rightarrow> string" where
  "normpath path =
     (if path = '''' then ''.''
      else let ini = initial_slashes path;
               comps = norm_comps ini [] (split_on CHR ''/'' path);
               joined = join ''/'' comps;
               p = (if ini \<noteq> 0 then replicate ini CHR ''/'' @ joined else joined)
           in if p = '''' then ''.'' else p)"

definition path_join :: "string \<Rightarrow> string \<Rightarrow> string" where
  "path_join a b =
     (if startswith b ''/'' then b
      else if a = '''' \<or> endswith a ''/'' then a @ b
      else a @ ''/'' @ b)"

datatype node = Dir bool | File bool bool "exn + string"

record os_state =
  cwd :: string
  home :: string
  files :: "(string list \<times> node) list"

definition abspath :: "os_state \<Rightarrow> string \<Rightarrow> string" where
  "abspath st path =
     normpath (if \<not> startswith path ''/'' then path_join (cwd st) path else path)"

definition path_key :: "string \<Rightarrow> string list" where
  "path_key p = filter (\<lambda>c. c \<noteq> '''') (split_on CHR ''/'' p)"

definition key_path :: "string list \<Rightarrow> string" where
  "key_path k = ''/'' @ join ''/'' k"

text \<open>
  The key of a normalised absolute path: \<open>os.makedirs\<close>, \<open>os.listdir\<close>, \<open>os.rmdir\<close> and
  \<open>shutil.rmtree\<close> are called by the tools with such paths only.
\<close>

definition resolve :: "os_state \<Rightarrow> string \<Rightarrow> string list" where
  "resolve st p = path_key (abspath st p)"

text \<open>
  Path resolution as the operating system does it for \<open>os.path.exists\<close>, \<open>os.path.isdir\<close>
  and \<open>open\<close>: the components are followed one after the other from the root or from the
  working directory, and each step is taken from an existing directory; an empty component
  and \<open>.\<close> stay there, \<open>..\<close> goes to the parent. So \<open>nodir/../notes.txt\<close> does not resolve
  when \<open>nodir\<close> is missing, and \<open>notes.txt/\<close> does not resolve when \<open>notes.txt\<close> is a
  file. The empty path and a path with a NUL character name nothing. The last component
  itself need not exist.
\<close>

fun walk :: "(string list \<times> node) list \<Rightarrow> string list \<Rightarrow> string list \<Rightarrow> string list option" where
  "walk fs cur [] = Some cur"
| "walk fs cur (c # cs) =
     (case map_of fs cur of
        Some (Dir w) \<Rightarrow>
          walk fs (if c = '''' \<or> c = ''.'' then cur
                   else if c = ''..'' then butlast cur
                   else cur @ [c]) cs
      | _ \<Rightarrow> None)"

definition os_resolve :: "os_state \<Rightarrow> string \<Rightarrow> string list option" where
  "os_resolve st p =
     (if p = '''' \<or> CHR 0x00 \<in> set p then None
      else walk (files st) (if startswith p ''/'' then [] else path_key (cwd st))
             (split_on CHR ''/'' p))"

definition lookup :: "os_state \<Rightarrow> string \<Rightarrow> node option" where
  "lookup st p = (case os_resolve st p of None \<Rightarrow> None | Some k \<Rightarrow> map_of (files st) k)"

definition path_exists :: "os_state \<Rightarrow> string \<Rightarrow> bool" where
  "path_exists st p = (case lookup st p of None \<Rightarrow> False | Some n \<Rightarrow> True)"

definition isdir :: "os_state \<Rightarrow> string \<Rightarrow> bool" where
  "isdir st p = (case lookup st p of Some (Dir w) \<Rightarrow> True | _ \<Rightarrow> False)"

definition os_msg :: "string \<Rightarrow> string list \<Rightarrow> string" where
  "os_msg what k = what @ '': '' @ [CHR 0x27] @ key_path k @ [CHR 0x27]"

definition store :: "string list \<Rightarrow> node \<Rightarrow> (string list \<times> node) list \<Rightarrow> (string list \<times> node) list" where
  "store k n fs = (k, n) # filter (\<lambda>e. fst e \<noteq> k) fs"

definition children :: "(string list \<times> node) list \<Rightarrow> string list \<Rightarrow> string list list" where
  "children fs k = filter (\<lambda>k'. k' \<noteq> [] \<and> butlast k' = k) (map fst fs)"

definition parent_writable :: "(string list \<times> node) list \<Rightarrow> string list \<Rightarrow> bool" where
  "parent_writable fs k = (k \<noteq> [] \<and> map_of fs (butlast k) = Some (Dir True))"

text \<open>
  \<open>os.makedirs(path, exist_ok=True)\<close>: walk down the components; an existing directory is
  entered, a missing one is created when its parent is a writable directory. The directories
  made before a failure stay.
\<close>

fun makedirs_from ::
  "(string list \<times> node) list \<Rightarrow> string list \<Rightarrow> string list \<Rightarrow> exn option \<times> (string list \<times> node) list"
where
  "makedirs_from fs cur [] = (None, fs)"
| "makedirs_from fs cur (c # cs) =
     (case map_of fs (cur @ [c]) of
        Some (Dir w) \<Rightarrow> makedirs_from fs (cur @ [c]) cs
      | Some (File r w t) \<Rightarrow>
          (Some (OSError (os_msg (if cs = [] then ''[Errno 17] File exists''
                                  else ''[Errno 20] Not a directory'') (cur @ [c]))), fs)
      | None \<Rightarrow>
          (case map_of fs cur of
             Some (Dir True) \<Rightarrow> makedirs_from (store (cur @ [c]) (Dir True) fs) (cur @ [c]) cs
           | Some (Dir False) \<Rightarrow>
               (Some (PermissionError (os_msg ''[Errno 13] Permission denied'' (cur @ [c]))), fs)
           | Some (File r w t) \<Rightarrow>
               (Some (OSError (os_msg ''[Errno 20] Not a directory'' (cur @ [c]))), fs)
           | None \<Rightarrow>
               (Some (OSError (os_msg ''[Errno 2] No such file or directory'' (cur @ [c]))), fs)))"

definition makedirs :: "os_state \<Rightarrow> string \<Rightarrow> exn option \<times> os_state" where
  "makedirs st p =
     (let (e, fs) = makedirs_from (files st) [] (resolve st p) in (e, st\<lparr>files := fs\<rparr>))"

text \<open>\<open>os.listdir\<close>, \<open>os.rmdir\<close> and \<open>shutil.rmtree\<close> on an existing directory.\<close>

definition listdir :: "os_state \<Rightarrow> string \<Rightarrow> string list" where
  "listdir st p = map last (children (files st) (resolve st p))"

definition rmdir :: "os_state \<Rightarrow> string \<Rightarrow> exn option \<times> os_state" where
  "rmdir st p =
     (let k = resolve st p in
      if children (files st) k \<noteq> [] then
        (Some (OSError (os_msg ''[Errno 39] Directory not empty'' k)), st)
      else if \<not> parent_writable (files st) k then
        (Some (PermissionError (os_msg ''[Errno 13] Permission denied'' k)), st)
      else (None, st\<lparr>files := filter (\<lambda>e. fst e \<noteq> k) (files st)\<rparr>))"

definition below :: "string list \<Rightarrow> string list \<Rightarrow> bool" where
  "below k k' = (take (length k) k' = k)"

definition rmtree :: "os_state \<Rightarrow> string \<Rightarrow> exn option \<times> os_state" where
  "rmtree st p =
     (let k = resolve st p in
      if \<not> parent_writable (files st) k
         \<or> list_ex (\<lambda>e. below k (fst e) \<and> snd e = Dir False \<and> children (files st) (fst e) \<noteq> [])
              (files st)
      then (Some (PermissionError (os_msg ''[Errno 13] Permission denied'' k)), st)
      else (None, st\<lparr>files := filter (\<lambda>e. \<not> below k (fst e)) (files st)\<rparr>))"

text \<open>
  \<open>open(p, 'r', encoding='utf-8').read()\<close> and \<open>open(p, 'w', encoding='utf-8').write(text)\<close>
  with the file closed afterwards. Reading fails on a missing path, a directory, a file the
  process may not read and a file whose bytes are not UTF-8; the text read has its line
  ends CR LF and CR turned into LF. Opening for writing truncates an existing file and
  creates a missing one; on POSIX the text is written as it is.
\<close>

fun universal_newlines :: "string \<Rightarrow> string" where
  "universal_newlines [] = []"
| "universal_newlines [c] = (if c = CHR 0x0D then [CHR 0x0A] else [c])"
| "universal_newlines (c # d # cs) =
     (if c = CHR 0x0D \<and> d = CHR 0x0A then CHR 0x0A # universal_newlines cs
      else if c = CHR 0x0D then CHR 0x0A # universal_newlines (d # cs)
      else c # universal_newlines (d # cs))"

definition path_msg :: "string \<Rightarrow> string \<Rightarrow> string" where
  "path_msg what p = what @ '': '' @ [CHR 0x27] @ p @ [CHR 0x27]"

definition read_file :: "os_state \<Rightarrow> string \<Rightarrow> exn + string" where
  "read_file st p =
     (case lookup st p of
        None \<Rightarrow> Inl (OSError (path_msg ''[Errno 2] No such file or directory'' p))
      | Some (Dir w) \<Rightarrow> Inl (OSError (path_msg ''[Errno 21] Is a directory'' p))
      | Some (File r w c) \<Rightarrow>
          if \<not> r then Inl (PermissionError (path_msg ''[Errno 13] Permission denied'' p))
          else (case c of
                  Inl e \<Rightarrow> Inl e
                | Inr t \<Rightarrow> Inr (universal_newlines t)))"

definition write_file :: "os_state \<Rightarrow> string \<Rightarrow> string \<Rightarrow> exn option \<times> os_state" where
  "write_file st p text =
     (case os_resolve st p of
        None \<Rightarrow> (Some (OSError (path_msg ''[Errno 2] No such file or directory'' p)), st)
      | Some k \<Rightarrow>
          (case map_of (files st) k of
             Some (Dir w) \<Rightarrow> (Some (OSError (path_msg ''[Errno 21] Is a directory'' p)), st)
           | Some (File r w c) \<Rightarrow>
               if w then (None, st\<lparr>files := store k (File r True (Inr text)) (files st)\<rparr>)
               else (Some (PermissionError (path_msg ''[Errno 13] Permission denied'' p)), st)
           | None \<Rightarrow>
               if parent_writable (files st) k
               then (None, st\<lparr>files := store k (File True True (Inr text)) (files st)\<rparr>)
               else (Some (PermissionError (path_msg ''[Errno 13] Permission denied'' p)), st)))"

section \<open>os\_create\_folders\_tool.py\<close>

definition invalid_chars :: string where
  "invalid_chars = ''<>:'' @ [CHR 0x22] @ ''|?*''"

text \<open>
  One round of the loop of \<open>OsCreateFoldersTool.run\<close>: the status line appended to
  \<open>results\<close> for \<open>path\<close>, and the file system afterwards. The character test is made on
  \<open>absolute_path\<close>; the two \<open>except\<close> clauses turn a failure of \<open>os.makedirs\<close> into a
  status line.
\<close>

definition create_one :: "os_state \<Rightarrow> string \<Rightarrow> string \<times> os_state" where
  "create_one st path =
     (let normalized_path = normpath path;
          absolute_path = abspath st normalized_path
      in if \<not> list_all (\<lambda>c. c \<notin> set invalid_chars) absolute_path
         then (''Invalid characters in path: '' @ path, st)
         else (case makedirs st absolute_path of
                 (None, st') \<Rightarrow> (''Successfully created folder: '' @ path, st')
               | (Some (PermissionError m), st') \<Rightarrow>
                   (''Permission denied: Unable to create folder '' @ path, st')
               | (Some e, st') \<Rightarrow>
                   (''Error creating folder '' @ path @ '': '' @ str_exn e, st')))"

fun create_loop :: "os_state \<Rightarrow> string list \<Rightarrow> string list \<times> os_state" where
  "create_loop st [] = ([], st)"
| "create_loop st (path # paths) =
     (let (line, st') = create_one st path;
          (results, st'') = create_loop st' paths
      in (line # results, st''))"

definition os_create_folders_run :: "os_state \<Rightarrow> string list \<Rightarrow> content list \<times> os_state" where
  "os_create_folders_run st folder_paths =
     (if folder_paths = [] then ([TextContent ''No folder paths provided''], st)
      else let (results, st') = create_loop st folder_paths
           in ([TextContent (join newline results)], st'))"

section \<open>os\_delete\_folders\_tool.py\<close>

definition unsafe_paths :: "os_state \<Rightarrow> string list" where
  "unsafe_paths st = [''/'', ''/home'', ''/etc'', ''/usr'', ''/var'', ''/bin'', ''/sbin'', home st]"

text \<open>
  \<open>_is_safe_path\<close>; \<open>home st\<close> is the value of \<open>os.path.expanduser('~')\<close>.
\<close>

definition is_safe_path :: "os_state \<Rightarrow> string \<Rightarrow> bool" where
  "is_safe_path st path =
     (let abs_path = abspath st path
      in \<not> list_ex (\<lambda>safe_path. startswith abs_path safe_path \<or> abs_path = safe_path)
              (unsafe_paths st))"

definition delete_error :: "string \<Rightarrow> exn \<Rightarrow> string" where
  "delete_error path e =
     (case e of
        PermissionError m \<Rightarrow> ''Permission denied: Unable to delete folder '' @ path
      | OSError m \<Rightarrow> ''Error deleting folder '' @ path @ '': '' @ m
      | _ \<Rightarrow> ''Unexpected error deleting folder '' @ path @ '': '' @ str_exn e)"

definition delete_one :: "bool \<Rightarrow> os_state \<Rightarrow> string \<Rightarrow> string \<times> os_state" where
  "delete_one force st path =
     (let normalized_path = normpath path;
          absolute_path = abspath st normalized_path
      in if \<not> is_safe_path st absolute_path
           then (''Unsafe deletion prevented for path: '' @ path, st)
         else if \<not> path_exists st absolute_path
           then (''Path does not exist: '' @ path, st)
         else if \<not> isdir st absolute_path
           then (''Path is not a directory: '' @ path, st)
         else if force
           then (case rmtree st absolute_path of
                   (None, st') \<Rightarrow> (''Forcefully deleted folder: '' @ path, st')
                 | (Some e, st') \<Rightarrow> (delete_error path e, st'))
         else if listdir st absolute_path = []
           then (case rmdir st absolute_path of
                   (None, st') \<Rightarrow> (''Successfully deleted empty folder: '' @ path, st')
                 | (Some e, st') \<Rightarrow> (delete_error path e, st'))
         else (''Folder not empty, deletion skipped: '' @ path
                 @ ''. Use 'force=true' to delete non-empty folders.'', st))"

fun delete_loop :: "bool \<Rightarrow> os_state \<Rightarrow> string list \<Rightarrow> string list \<times> os_state" where
  "delete_loop force st [] = ([], st)"
| "delete_loop force st (path # paths) =
     (let (line, st') = delete_one force st path;
          (results, st'') = delete_loop force st' paths
      in (line # results, st''))"

definition os_delete_folders_run ::
  "os_state \<Rightarrow> string list \<Rightarrow> bool \<Rightarrow> content list \<times> os_state"
where
  "os_delete_folders_run st folder_paths force =
     (if folder_paths = [] then ([TextContent ''No folder paths provided''], st)
      else let (results, st') = delete_loop force st folder_paths
           in ([TextContent (join newline results)], st'))"

section \<open>os\_file\_edit\_tool.py\<close>

text \<open>
  \<open>re.sub(pattern, replacement, content)\<close> belongs to the Python library and is a parameter
  of the model. It gives the substituted text, or raises \<open>re.error\<close> with a message, or
  raises another exception (\<open>RecursionError\<close>, \<open>OverflowError\<close>, ...).
\<close>

datatype re_outcome = Substituted string | ReError string | ReRaised exn

type_synonym regex_sub = "string \<Rightarrow> string \<Rightarrow> string \<Rightarrow> re_outcome"

definition edit_by_lines :: "string list \<Rightarrow> int \<Rightarrow> int \<Rightarrow> string \<Rightarrow> exn + string" where
  "edit_by_lines lines start_line end_line new_content =
     (if start_line < 1 \<or> end_line > int (length lines) \<or> start_line > end_line
      then Inl (ValueError ''Invalid line numbers'')
      else Inr (join newline
                  (take (nat (start_line - 1)) lines @ splitlines new_content
                     @ drop (nat end_line) lines)))"

text \<open>
  The validated \<open>InputModel\<close>. The three leading fields are declared \<open>str\<close>; they are
  options here so that the \<open>is None\<close> tests of \<open>run\<close> keep their branches.
\<close>

record edit_args =
  file_path :: "string option"
  edit_type :: "string option"
  new_content :: "string option"
  start_line :: "int option"
  end_line :: "int option"
  search_pattern :: "string option"
  replacement_text :: "string option"

text \<open>
  \<open>_find_and_replace\<close>: only \<open>re.error\<close> is caught and turned into the returned text; any
  other exception of \<open>re.sub\<close> goes on to the handler of \<open>run\<close>.
\<close>

definition find_and_replace :: "regex_sub \<Rightarrow> string \<Rightarrow> string \<Rightarrow> string \<Rightarrow> exn + string" where
  "find_and_replace re_sub content pattern replacement =
     (case re_sub pattern replacement content of
        Substituted r \<Rightarrow> Inr r
      | ReError e \<Rightarrow> Inr (''Invalid regular expression pattern: '' @ e)
      | ReRaised e \<Rightarrow> Inl e)"

definition truthy :: "string option \<Rightarrow> bool" where
  "truthy v = (case v of None \<Rightarrow> False | Some s \<Rightarrow> s \<noteq> '''')"

definition updated_content ::
  "regex_sub \<Rightarrow> edit_args \<Rightarrow> string \<Rightarrow> string \<Rightarrow> string \<Rightarrow> exn + string"
where
  "updated_content re_sub arg et nc original_content =
     (if et = ''full'' then Inr nc
      else (case (start_line arg, end_line arg) of
              (Some s, Some e) \<Rightarrow> edit_by_lines (splitlines original_content) s e nc
            | _ \<Rightarrow>
               if truthy (search_pattern arg) \<and> truthy (replacement_text arg)
               then find_and_replace re_sub original_content
                      (case search_pattern arg of Some p \<Rightarrow> p | None \<Rightarrow> '''')
                      (case replacement_text arg of Some r \<Rightarrow> r | None \<Rightarrow> '''')
               else Inl (ValueError ''Invalid partial edit parameters'')))"

text \<open>The body of the \<open>try\<close> block: read, compute, write.\<close>

definition edit_try ::
  "regex_sub \<Rightarrow> os_state \<Rightarrow> edit_args \<Rightarrow> string \<Rightarrow> string \<Rightarrow> string \<Rightarrow> (exn + string) \<times> os_state"
where
  "edit_try re_sub st arg fp et nc =
     (case read_file st fp of
        Inl e \<Rightarrow> (Inl e, st)
      | Inr original_content \<Rightarrow>
          (case updated_content re_sub arg et nc original_content of
             Inl e \<Rightarrow> (Inl e, st)
           | Inr updated \<Rightarrow>
               (case write_file st fp updated of
                  (Some e, st') \<Rightarrow> (Inl e, st')
                | (None, st') \<Rightarrow> (Inr updated, st'))))"

definition os_file_edit_run ::
  "regex_sub \<Rightarrow> os_state \<Rightarrow> edit_args \<Rightarrow> content list \<times> os_state"
where
  "os_file_edit_run re_sub st arg =
     (case file_path arg of
        None \<Rightarrow> ([TextContent ''Error: File path is required.''], st)
      | Some fp \<Rightarrow>
          if \<not> path_exists st fp then ([TextContent (''File not found: '' @ fp)], st)
          else (case edit_type arg of
                  None \<Rightarrow> ([TextContent ''Error: Edit type is required.''], st)
                | Some et \<Rightarrow>
                    (case new_content arg of
                       None \<Rightarrow> ([TextContent ''Error: New content is required.''], st)
                     | Some nc \<Rightarrow>
                         (case edit_try re_sub st arg fp et nc of
                            (Inr updated, st') \<Rightarrow>
                              ([TextContent (''File successfully updated: '' @ fp @ newline
                                               @ updated)], st')
                          | (Inl e, st') \<Rightarrow>
                              ([TextContent (''Error editing file: '' @ str_exn e)], st')))))"

section \<open>web\_brave\_web\_search.py\<close>

text \<open>
  \<open>str.strip()\<close>, \<open>str(i)\<close> for an integer and \<open>int(s)\<close> for a string: optional surrounding
  whitespace, an optional sign, then decimal digits, single underscores allowed between
  digits; anything else raises \<open>ValueError\<close>.
\<close>

definition strip :: "string \<Rightarrow> string" where
  "strip s = rev (dropWhile isspace (rev (dropWhile isspace s)))"

definition str_int :: "int \<Rightarrow> string" where
  "str_int i = (if i < 0 then ''-'' @ str_nat (nat (- i)) else str_nat (nat i))"

definition is_digit :: "char \<Rightarrow> bool" where
  "is_digit c = (48 \<le> (of_char c :: nat) \<and> (of_char c :: nat) \<le> 57)"

definition digit_val :: "char \<Rightarrow> nat" where
  "digit_val c = of_char c - 48"

fun parse_digits :: "nat \<Rightarrow> string \<Rightarrow> nat option" where
  "parse_digits acc [] = Some acc"
| "parse_digits acc [c] = (if is_digit c then Some (acc * 10 + digit_val c) else None)"
| "parse_digits acc (c # d # cs) =
     (if is_digit c then parse_digits (acc * 10 + digit_val c) (d # cs)
      else if c = CHR ''_'' \<and> is_digit d then parse_digits acc (d # cs)
      else None)"

definition int_error :: "string \<Rightarrow> exn" where
  "int_error s = ValueError (''invalid literal for int() with base 10: '' @ [CHR 0x27] @ s @ [CHR 0x27])"

definition py_int :: "string \<Rightarrow> exn + int" where
  "py_int s =
     (let t = strip s;
          neg = (t \<noteq> [] \<and> hd t = CHR ''-'');
          u = (if t \<noteq> [] \<and> (hd t = CHR ''-'' \<or> hd t = CHR ''+'') then tl t else t)
      in if u = [] \<or> \<not> is_digit (hd u) then Inl (int_error s)
         else (case parse_digits 0 u of
                 None \<Rightarrow> Inl (int_error s)
               | Some n \<Rightarrow> Inr (if neg then - int n else int n)))"

text \<open>
  The HTTP exchange. A request carries the query parameters and the subscription token. Of a
  response the tool reads the status code, the \<open>Retry-After\<close> header, the body text, and
  the value of \<open>response.json().get("web", {}).get("results", [])\<close>: a list of result
  dictionaries, or the exception raised on the way to it.
\<close>

record request =
  param_q :: string
  param_count :: int
  param_offset :: "int option"
  header_token :: string

record response =
  status_code :: int
  retry_after :: "string option"
  body_text :: string
  json_results :: "exn + (string \<times> string) list list"

text \<open>
  What the network does with one request: the time from the moment \<open>run\<close> has stamped
  \<open>LAST_REQUEST_TIME\<close> to the moment the request leaves (building the request, opening the
  connection), the time from there to the answer, and the response or the exception
  \<open>client.get\<close> raises (a transport error).
\<close>

record answer =
  send_delay :: real
  latency :: real
  outcome :: "exn + response"

text \<open>
  The world a run acts on. \<open>clock\<close> is the time of the event loop in seconds, which
  \<open>asyncio.sleep\<close> and the network follow and which never goes back. \<open>datetime.now()\<close> reads
  the local wall clock instead; \<open>wall_offset\<close> gives, for each time of the event loop, how
  far the wall clock is ahead of it: it changes when the system clock is set and when
  daylight saving time begins or ends. \<open>last_request_time\<close> is the module variable
  \<open>LAST_REQUEST_TIME\<close>, a wall clock reading. \<open>sent\<close> holds the requests sent so far, each
  with the time of the event loop at which it left, and \<open>upstream\<close> is the API, which gives
  the answer to the request sent after \<open>n\<close> earlier ones.
\<close>

record world =
  clock :: real
  wall_offset :: "real \<Rightarrow> real"
  last_request_time :: "real option"
  sent :: "(real \<times> request) list"
  upstream :: "nat \<Rightarrow> answer"

definition RATE_LIMIT :: real where
  "RATE_LIMIT = 1"

definition datetime_now :: "world \<Rightarrow> real" where
  "datetime_now w = clock w + wall_offset w (clock w)"

text \<open>\<open>await asyncio.sleep(d)\<close>: a non-positive delay returns at once.\<close>

definition sleep :: "real \<Rightarrow> world \<Rightarrow> world" where
  "sleep d w = w\<lparr>clock := clock w + max d 0\<rparr>"

text \<open>The rate limiting block of \<open>run\<close>, up to \<open>LAST_REQUEST_TIME = datetime.now()\<close>.\<close>

definition rate_limit :: "world \<Rightarrow> world" where
  "rate_limit w =
     (let w1 = (case last_request_time w of
                  None \<Rightarrow> w
                | Some t \<Rightarrow>
                    let elapsed = datetime_now w - t
                    in if elapsed < 1 / RATE_LIMIT then sleep (1 / RATE_LIMIT - elapsed) w else w)
      in w1\<lparr>last_request_time := Some (datetime_now w1)\<rparr>)"

definition client_get :: "request \<Rightarrow> world \<Rightarrow> (exn + response) \<times> world" where
  "client_get rq w =
     (let a = upstream w (length (sent w))
      in (outcome a,
          w\<lparr>sent := sent w @ [(clock w + send_delay a, rq)],
            clock := clock w + send_delay a + latency a\<rparr>))"

record brave_args =
  query :: string
  count :: int
  offset :: "int option"

definition dict_get :: "(string \<times> string) list \<Rightarrow> string \<Rightarrow> string \<Rightarrow> string" where
  "dict_get d k dflt = (case map_of d k of None \<Rightarrow> dflt | Some v \<Rightarrow> v)"

definition format_result :: "(string \<times> string) list \<Rightarrow> content" where
  "format_result r =
     TextContent (''Title: '' @ dict_get r ''title'' '''' @ newline
                  @ ''Description: '' @ dict_get r ''description'' '''' @ newline
                  @ ''URL: '' @ dict_get r ''url'' '''')"

definition retry_after_seconds :: "response \<Rightarrow> exn + int" where
  "retry_after_seconds r = (case retry_after r of None \<Rightarrow> Inr 1 | Some s \<Rightarrow> py_int s)"

text \<open>
  The request \<open>run\<close> builds: \<open>params\<close> and the subscription token of \<open>headers\<close>. \<open>key\<close> is
  the value of \<open>env.get('BRAVE_API_KEY')\<close>.
\<close>

definition brave_request :: "string option \<Rightarrow> brave_args \<Rightarrow> request" where
  "brave_request key arg =
     \<lparr>param_q = query arg, param_count = min (count arg) 20, param_offset = offset arg,
      header_token = (case key of Some k \<Rightarrow> k | None \<Rightarrow> '''')\<rparr>"

text \<open>
  What \<open>run\<close> does with a response whose status is not 429: \<open>Inr\<close> the items it returns,
  \<open>Inl\<close> the exception that leaves it.
\<close>

definition final_result :: "response \<Rightarrow> exn + content list" where
  "final_result response =
     (if status_code response \<noteq> 200
      then Inr [ErrorContent (status_code response)
                  (''Brave API error: '' @ str_int (status_code response) @ '' ''
                     @ body_text response)]
      else (case json_results response of
              Inl e \<Rightarrow> Inl e
            | Inr results \<Rightarrow> Inr (map format_result results)))"

text \<open>
  \<open>WebBraveWebSearchTool.run\<close>. There is no \<open>try\<close> in it: an exception raised by
  \<open>client.get\<close>, by \<open>int\<close> or by \<open>response.json()\<close> leaves \<open>run\<close>, which is the result
  \<open>Inl e\<close>; \<open>Inr items\<close> is a normal return. On status 429 \<open>run\<close> awaits itself, each
  invocation nested in the one before, with nothing that counts the retries. What ends a
  chain of 429 answers is the recursion limit of the interpreter: the first argument is the
  number of nested invocations of \<open>run\<close> the interpreter can still carry (about 990 for a
  call from an otherwise empty stack with CPython's default limit); when none is left, the
  invocation raises \<open>RecursionError\<close>, which leaves every invocation around it.
\<close>

definition recursion_error :: exn where
  "recursion_error = Exception ''maximum recursion depth exceeded''"

fun brave_run ::
  "nat \<Rightarrow> string option \<Rightarrow> brave_args \<Rightarrow> world \<Rightarrow> (exn + content list) \<times> world"
where
  "brave_run 0 key arg w = (Inl recursion_error, w)"
| "brave_run (Suc n) key arg w =
     (if \<not> truthy key
      then (Inr [TextContent ''Missing required BRAVE_API_KEY environment variables''], w)
      else
        let w1 = rate_limit w;
            (r, w2) = client_get (brave_request key arg) w1
        in case r of
             Inl e \<Rightarrow> (Inl e, w2)
           | Inr response \<Rightarrow>
               if status_code response = 429 then
                 (case retry_after_seconds response of
                    Inl e \<Rightarrow> (Inl e, w2)
                  | Inr d \<Rightarrow> brave_run n key arg (sleep (real_of_int d) w2))
               else (final_result response, w2))"

text \<open>
  Invocations one after the other, each awaited to its end before the next is called, with
  a pause before each call.
\<close>

fun sequential ::
  "nat \<Rightarrow> string option \<Rightarrow> (real \<times> brave_args) list \<Rightarrow> world \<Rightarrow> world"
where
  "sequential n key [] w = w"
| "sequential n key ((pause, arg) # calls) w =
     sequential n key calls (snd (brave_run n key arg (sleep pause w)))"

text \<open>
  The same \<open>run\<close> cut at its \<open>await\<close> points, for invocations that overlap. The event loop
  runs one coroutine at a time and switches only where a coroutine awaits: in the sleep of
  the rate limiter, in \<open>client.get\<close>, and in the sleep before a retry. A task is an invocation
  of \<open>run\<close> together with the point where it is suspended, the number of nested invocations
  still left to it and, for a sleep or a request, the time at which it can go on.
\<close>

datatype task =
    Called nat
  | Throttled nat real
  | Waiting nat real "exn + response"
  | Backoff nat real
  | Returned "exn + content list"

text \<open>From \<open>LAST_REQUEST_TIME = datetime.now()\<close> to the suspension in \<open>client.get\<close>.\<close>

definition send_request :: "string option \<Rightarrow> brave_args \<Rightarrow> nat \<Rightarrow> world \<Rightarrow> task \<times> world" where
  "send_request key arg n w =
     (let w1 = w\<lparr>last_request_time := Some (datetime_now w)\<rparr>;
          a = upstream w1 (length (sent w1))
      in (Waiting n (clock w1 + send_delay a + latency a) (outcome a),
          w1\<lparr>sent := sent w1 @ [(clock w1 + send_delay a, brave_request key arg)]\<rparr>))"

text \<open>From the entry of \<open>run\<close> to its first suspension.\<close>

definition start :: "string option \<Rightarrow> brave_args \<Rightarrow> nat \<Rightarrow> world \<Rightarrow> task \<times> world" where
  "start key arg n w =
     (case n of
        0 \<Rightarrow> (Returned (Inl recursion_error), w)
      | Suc m \<Rightarrow>
          if \<not> truthy key
          then (Returned (Inr [TextContent ''Missing required BRAVE_API_KEY environment variables'']),
                w)
          else (case last_request_time w of
                  None \<Rightarrow> send_request key arg m w
                | Some t \<Rightarrow>
                    let elapsed = datetime_now w - t
                    in if elapsed < 1 / RATE_LIMIT
                       then (Throttled m (clock w + (1 / RATE_LIMIT - elapsed)), w)
                       else send_request key arg m w))"

text \<open>From the arrival of the answer to the return or to the sleep before the retry.\<close>

definition on_answer :: "exn + response \<Rightarrow> nat \<Rightarrow> world \<Rightarrow> task" where
  "on_answer r n w =
     (case r of
        Inl e \<Rightarrow> Returned (Inl e)
      | Inr response \<Rightarrow>
          if status_code response = 429 then
            (case retry_after_seconds response of
               Inl e \<Rightarrow> Returned (Inl e)
             | Inr d \<Rightarrow> Backoff n (clock w + max (real_of_int d) 0))
          else Returned (final_result response))"

text \<open>
  The event loop resumes a task: nothing happens while the task still has to wait; after the
  sleep before a retry the task enters \<open>run\<close> again.
\<close>

definition resume :: "string option \<Rightarrow> brave_args \<Rightarrow> task \<Rightarrow> world \<Rightarrow> task \<times> world" where
  "resume key arg t w =
     (case t of
        Called n \<Rightarrow> start key arg n w
      | Throttled n u \<Rightarrow> if u \<le> clock w then send_request key arg n w else (t, w)
      | Waiting n u r \<Rightarrow> if u \<le> clock w then (on_answer r n w, w) else (t, w)
      | Backoff n u \<Rightarrow> if u \<le> clock w then start key arg n w else (t, w)
      | Returned r \<Rightarrow> (t, w))"

text \<open>
  A schedule is a list of events: the event loop resumes the task at a position of the task
  list, or time passes.
\<close>

datatype event = Resume nat | Advance real

fun step ::
  "string option \<Rightarrow> brave_args \<Rightarrow> task list \<times> world \<Rightarrow> event \<Rightarrow> task list \<times> world"
where
  "step key arg (ts, w) (Advance d) = (ts, w\<lparr>clock := clock w + max d 0\<rparr>)"
| "step key arg (ts, w) (Resume i) =
     (if i < length ts
      then (let (t, w') = resume key arg (ts ! i) w in (ts[i := t], w'))
      else (ts, w))"

definition exec ::
  "string option \<Rightarrow> brave_args \<Rightarrow> event list \<Rightarrow> task list \<times> world \<Rightarrow> task list \<times> world"
where
  "exec key arg events s = foldl (step key arg) s events"

text \<open>
  One invocation running alone: whenever it is suspended until a time \<open>u\<close>, the clock moves
  to \<open>u\<close> and the task is resumed. The first argument bounds the number of resumptions.
\<close>

definition wake_time :: "task \<Rightarrow> world \<Rightarrow> real" where
  "wake_time t w =
     (case t of Throttled n u \<Rightarrow> u | Waiting n u r \<Rightarrow> u | Backoff n u \<Rightarrow> u | _ \<Rightarrow> clock w)"

fun run_alone ::
  "nat \<Rightarrow> string option \<Rightarrow> brave_args \<Rightarrow> task \<Rightarrow> world \<Rightarrow> ((exn + content list) \<times> world) option"
where
  "run_alone 0 key arg t w = None"
| "run_alone (Suc n) key arg t w =
     (case t of
        Returned r \<Rightarrow> Some (r, w)
      | _ \<Rightarrow> (let (t', w') = resume key arg t (w\<lparr>clock := wake_time t w\<rparr>)
              in run_alone n key arg t' w'))"

text \<open>
  Requests sent in order of time with at least \<open>1 / RATE_LIMIT\<close> seconds between
  neighbours, and the invariant kept by invocations that do not overlap, \<open>c\<close> being the time
  from the stamp to the sending: the requests sent so far are spaced, the last of them has
  left, and \<open>LAST_REQUEST_TIME\<close> is not earlier than the reading of the wall clock at the
  moment that request was stamped.
\<close>

fun spaced :: "real list \<Rightarrow> bool" where
  "spaced [] = True"
| "spaced [t] = True"
| "spaced (t # u # ts) = (1 / RATE_LIMIT \<le> u - t \<and> spaced (u # ts))"

definition rate_respected :: "real \<Rightarrow> world \<Rightarrow> bool" where
  "rate_respected c w =
     (spaced (map fst (sent w))
      \<and> (sent w = []
         \<or> (case last_request_time w of
              None \<Rightarrow> False
            | Some t \<Rightarrow>
                fst (last (sent w)) \<le> clock w
                \<and> fst (last (sent w)) - c + wall_offset w (fst (last (sent w)) - c) \<le> t)))"

text \<open>
  The wall clock is never set forward while the program runs: its lead over the time of the
  event loop does not grow. It may be set back.
\<close>

definition never_set_forward :: "world \<Rightarrow> bool" where
  "never_set_forward w = (\<forall>s t. s \<le> t \<longrightarrow> wall_offset w t \<le> wall_offset w s)"

text \<open>
  The network of a world: every request leaves \<open>c\<close> seconds after its stamp, and no answer
  comes before its request.
\<close>

definition steady_network :: "real \<Rightarrow> world \<Rightarrow> bool" where
  "steady_network c w =
     (0 \<le> c \<and> (\<forall>i. send_delay (upstream w i) = c \<and> 0 \<le> latency (upstream w i)))"

text \<open>
  An answer with status 429, the number of seconds its \<open>Retry-After\<close> asks for when \<open>int\<close>
  accepts it (one second without the header), and the time \<open>run\<close> then sleeps.
\<close>

definition is_429 :: "answer \<Rightarrow> bool" where
  "is_429 a = (case outcome a of Inl e \<Rightarrow> False | Inr r \<Rightarrow> status_code r = 429)"

definition retry_delay :: "answer \<Rightarrow> int option" where
  "retry_delay a =
     (case outcome a of
        Inl e \<Rightarrow> None
      | Inr r \<Rightarrow>
          if status_code r = 429
          then (case retry_after_seconds r of Inl e \<Rightarrow> None | Inr d \<Rightarrow> Some d)
          else None)"

definition delay_seconds :: "answer \<Rightarrow> real" where
  "delay_seconds a = (case retry_delay a of None \<Rightarrow> 0 | Some d \<Rightarrow> max (real_of_int d) 0)"

text \<open>How \<open>run\<close> ends on an answer that is not a 429 response.\<close>

definition ending :: "answer \<Rightarrow> exn + content list" where
  "ending a = (case outcome a of Inl e \<Rightarrow> Inl e | Inr r \<Rightarrow> final_result r)"

text \<open>Example answers and worlds for the closed theorems.\<close>

definition ok_response :: "(string \<times> string) list list \<Rightarrow> response" where
  "ok_response results =
     \<lparr>status_code = 200, retry_after = None, body_text = ''{}'', json_results = Inr results\<rparr>"

definition throttled_response :: "string option \<Rightarrow> response" where
  "throttled_response ra =
     \<lparr>status_code = 429, retry_after = ra, body_text = ''Too Many Requests'',
      json_results = Inr []\<rparr>"

definition error_response :: response where
  "error_response =
     \<lparr>status_code = 500, retry_after = None, body_text = ''Internal Server Error'',
      json_results = Inl (Exception ''Expecting value: line 1 column 1 (char 0)'')\<rparr>"

definition scripted :: "answer list \<Rightarrow> nat \<Rightarrow> answer" where
  "scripted answers n =
     (if n < length answers then answers ! n
      else \<lparr>send_delay = 0, latency = 0, outcome = Inl (Exception ''All connection attempts failed'')\<rparr>)"

definition fresh_world :: "answer list \<Rightarrow> world" where
  "fresh_world answers =
     \<lparr>clock = 0, wall_offset = (\<lambda>t. 0), last_request_time = None, sent = [],
      upstream = scripted answers\<rparr>"

definition example_brave_args :: brave_args where
  "example_brave_args = \<lparr>query = ''isabelle'', count = 10, offset = Some 0\<rparr>"


section \<open>web\_duckduckgo\_search.py\<close>

record ddg_args =
  ddg_query :: string
  num_results :: "int option"
  region :: "string option"

text \<open>
  The libraries are parameters: \<open>search region max_results query\<close> is
  \<open>DuckDuckGoSearchResults(...).arun(query)\<close>, a list of result dictionaries or the exception
  it raises; \<open>unescape\<close> is \<open>html.unescape\<close> and \<open>unidecode\<close> the transliteration to ASCII.
\<close>

definition sanitize_text :: "(string \<Rightarrow> string) \<Rightarrow> (string \<Rightarrow> string) \<Rightarrow> string \<Rightarrow> string" where
  "sanitize_text unescape unidecode t = strip (unidecode (unescape t))"

definition ddg_item ::
  "(string \<Rightarrow> string) \<Rightarrow> (string \<Rightarrow> string) \<Rightarrow> (string \<times> string) list \<Rightarrow> content list"
where
  "ddg_item unescape unidecode r =
     (let title = sanitize_text unescape unidecode (dict_get r ''title'' '''');
          link = sanitize_text unescape unidecode (dict_get r ''link'' '''');
          snippet = sanitize_text unescape unidecode (dict_get r ''snippet'' '''')
      in if title \<noteq> '''' \<or> link \<noteq> '''' \<or> snippet \<noteq> ''''
         then [TextContent (''Title: '' @ title @ newline @ ''Link: '' @ link @ newline
                            @ ''Snippet: '' @ snippet @ newline @ newline)]
         else [])"

definition ddg_num :: "ddg_args \<Rightarrow> int" where
  "ddg_num arg = (case num_results arg of None \<Rightarrow> 8 | Some k \<Rightarrow> if k = 0 then 8 else k)"

definition ddg_region :: "ddg_args \<Rightarrow> string" where
  "ddg_region arg =
     (case region arg of None \<Rightarrow> ''en-en'' | Some s \<Rightarrow> if s = '''' then ''en-en'' else s)"

definition ddg_run ::
  "(string \<Rightarrow> int \<Rightarrow> string \<Rightarrow> exn + (string \<times> string) list list)
     \<Rightarrow> (string \<Rightarrow> string) \<Rightarrow> (string \<Rightarrow> string) \<Rightarrow> ddg_args \<Rightarrow> content list"
where
  "ddg_run search unescape unidecode arg =
     (if ddg_query arg = '''' then [TextContent ''Missing required argument: query'']
      else (case search (ddg_region arg) (ddg_num arg) (ddg_query arg) of
              Inl e \<Rightarrow> [TextContent (''Error performing search: '' @ str_exn e)]
            | Inr search_results \<Rightarrow> concat (map (ddg_item unescape unidecode) search_results)))"

text \<open>
  A usable result: after sanitising, its title, its link or its snippet is not empty.
\<close>

definition usable :: "(string \<Rightarrow> string) \<Rightarrow> (string \<Rightarrow> string) \<Rightarrow> (string \<times> string) list \<Rightarrow> bool" where
  "usable unescape unidecode r =
     (sanitize_text unescape unidecode (dict_get r ''title'' '''') \<noteq> ''''
      \<or> sanitize_text unescape unidecode (dict_get r ''link'' '''') \<noteq> ''''
      \<or> sanitize_text unescape unidecode (dict_get r ''snippet'' '''') \<noteq> '''')"

definition example_ddg_args :: ddg_args where
  "example_ddg_args = \<lparr>ddg_query = ''isabelle'', num_results = None, region = None\<rparr>"

section \<open>Error items of the weather and image tools\<close>

text \<open>
  A constructor call as the source writes it: the class named and the keyword arguments
  given. The runs of this section return the calls they make, so that the keywords stay
  visible.
\<close>

datatype pyval = PNone | PInt int | PStr string

datatype ctor_call = Call string "(string \<times> pyval) list"

text \<open>
  Modelled from the spec: the declaration of \<open>ErrorContent\<close> in \<open>simpletool.types\<close>, which is
  not part of the sources. The spec gives it exactly the fields \<open>code\<close>, an integer, and
  \<open>error\<close>, a string. A call builds such an item when it names that class and its keywords
  are these two fields with values of these types.
\<close>

definition is_int :: "pyval option \<Rightarrow> bool" where
  "is_int v = (case v of Some (PInt i) \<Rightarrow> True | _ \<Rightarrow> False)"

definition is_str :: "pyval option \<Rightarrow> bool" where
  "is_str v = (case v of Some (PStr s) \<Rightarrow> True | _ \<Rightarrow> False)"

definition is_error_content :: "ctor_call \<Rightarrow> bool" where
  "is_error_content c =
     (case c of Call cls kw \<Rightarrow>
        cls = ''ErrorContent''
        \<and> is_int (map_of kw ''code'') \<and> is_str (map_of kw ''error'')
        \<and> list_all (\<lambda>k. k = ''code'' \<or> k = ''error'') (map fst kw))"

definition names_error_content :: "ctor_call \<Rightarrow> bool" where
  "names_error_content c = (case c of Call cls kw \<Rightarrow> cls = ''ErrorContent'')"

text \<open>
  \<open>WeatherOpenMeteoForecastTool.run\<close> reads the raw arguments. \<open>geocode_city\<close> is
  \<open>_geocode_city\<close> with its calls to the geocoder; \<open>forecast\<close> is the rest of the \<open>try\<close>
  block, from the set-up of the API client to \<open>return return_values\<close>.
\<close>

record meteo_args =
  meteo_city :: "string option"
  meteo_latitude :: "real option"
  meteo_longitude :: "real option"

definition no_location :: ctor_call where
  "no_location =
     Call ''ErrorContent''
       [(''code'', PInt 400),
        (''message'', PStr ''Either city or latitude/longitude must be provided'')]"

definition weather_open_meteo_run ::
  "(string \<Rightarrow> exn + real \<times> real) \<Rightarrow> (real \<Rightarrow> real \<Rightarrow> exn + ctor_call list)
     \<Rightarrow> meteo_args \<Rightarrow> ctor_call list"
where
  "weather_open_meteo_run geocode_city forecast arguments =
     (case (if truthy (meteo_city arguments) then
              (case geocode_city (case meteo_city arguments of Some c \<Rightarrow> c | None \<Rightarrow> '''') of
                 Inl e \<Rightarrow> Inl e
               | Inr (lat, lon) \<Rightarrow> forecast lat lon)
            else (case (meteo_latitude arguments, meteo_longitude arguments) of
                    (Some lat, Some lon) \<Rightarrow>
                      if lat \<noteq> 0 \<and> lon \<noteq> 0 then forecast lat lon else Inr [no_location]
                  | _ \<Rightarrow> Inr [no_location]))
      of
        Inr items \<Rightarrow> items
      | Inl e \<Rightarrow>
          [Call ''ErrorContent''
             [(''code'', PInt 500),
              (''message'', PStr (''Weather retrieval error: '' @ str_exn e))]])"

text \<open>
  \<open>WeatherUSForecastTool.run\<close>. \<open>validated\<close> is the outcome of \<open>InputModel(**arguments)\<close>;
  \<open>forecast\<close> is the last \<open>try\<close> statement, which always returns a list. A \<open>ValueError\<close> of
  the geocoder is handled; any other exception it raises leaves \<open>run\<close>.
\<close>

record forecast_args =
  forecast_city :: "string option"
  forecast_latitude :: "real option"
  forecast_longitude :: "real option"

definition weather_us_forecast_run ::
  "(string \<Rightarrow> exn + real \<times> real) \<Rightarrow> (forecast_args \<Rightarrow> ctor_call list)
     \<Rightarrow> exn + forecast_args \<Rightarrow> exn + ctor_call list"
where
  "weather_us_forecast_run geocode_city forecast validated =
     (case validated of
        Inl (ValueError m) \<Rightarrow> Inr [Call ''ErrorContent'' [(''code'', PInt 400), (''message'', PStr m)]]
      | Inl e \<Rightarrow> Inl e
      | Inr arg \<Rightarrow>
          if truthy (forecast_city arg)
             \<and> (forecast_latitude arg = None \<or> forecast_longitude arg = None)
          then (case geocode_city (case forecast_city arg of Some c \<Rightarrow> c | None \<Rightarrow> '''') of
                  Inr (lat, lon) \<Rightarrow>
                    Inr (forecast (arg\<lparr>forecast_latitude := Some lat,
                                      forecast_longitude := Some lon\<rparr>))
                | Inl (ValueError m) \<Rightarrow>
                    Inr [Call ''ErrorContent'' [(''code'', PInt 400), (''message'', PStr m)],
                         Call ''TextContent''
                           [(''type'', PStr ''text''),
                            (''text'', PStr ''Error: Either city or latitude/longitude must be provided'')]]
                | Inl e \<Rightarrow> Inl e)
          else Inr (forecast arg))"

text \<open>
  \<open>DallETool.run\<close> after validation. \<open>key\<close> is \<open>self.env.get('OPENAI_API_KEY')\<close>;
  \<open>image_generation\<close> is the call to the library, giving the \<open>b64_json\<close> entry of each
  element of \<open>response.data\<close> or the exception raised.
\<close>

definition test_image :: string where
  "test_image = ''iVBORw0KGgoAAAANSUhEUgAAAAEAAAABCAQAAAC1HAwCAAAAC0lEQVR42mNk+A8AAQUBAScY42YAAAAASUVORK5CYII=''"

definition image_item :: "pyval \<Rightarrow> ctor_call" where
  "image_item img =
     Call ''ImageContent'' [(''type'', PStr ''image''), (''mime_type'', PStr ''image/jpeg''),
                            (''image'', img)]"

definition dalle_run ::
  "(string \<Rightarrow> exn + pyval list) \<Rightarrow> string option \<Rightarrow> string \<Rightarrow> ctor_call list"
where
  "dalle_run image_generation key image_description =
     (if \<not> truthy key then
        [Call ''TextContent''
           [(''type'', PStr ''text''),
            (''text'', PStr ''OpenAI API key is required. Please provide it in env_vars or set OPENAI_API_KEY environment variable.'')]]
      else if image_description = '''' then
        [Call ''TextContent''
           [(''type'', PStr ''text''),
            (''text'', PStr ''Missing required argument: image_description'')]]
      else if key = Some ''test'' then [image_item (PStr test_image)]
      else (case image_generation image_description of
              Inr [] \<Rightarrow>
                [Call ''TextContent''
                   [(''type'', PStr ''text''), (''text'', PStr ''No images generated.'')]]
            | Inr (img # imgs) \<Rightarrow> [image_item img]
            | Inl e \<Rightarrow>
                [Call ''ErrorContent''
                   [(''code'', PInt 500),
                    (''error'', PStr (''Error generating image: '' @ str_exn e))],
                 Call ''ErrorContent''
                   [(''code'', PInt 500), (''error'', PStr ''An error occurred'')]]))"

text \<open>Stand-ins for the geocoder, the forecast and the image library in closed examples.\<close>

definition unknown_city :: "string \<Rightarrow> exn + real \<times> real" where
  "unknown_city c = Inl (ValueError (''Could not find location for city: '' @ c))"

definition no_forecast :: "real \<Rightarrow> real \<Rightarrow> exn + ctor_call list" where
  "no_forecast lat lon = Inl (Exception ''failed to request https://api.open-meteo.com/v1/forecast'')"

definition nws_down :: "forecast_args \<Rightarrow> ctor_call list" where
  "nws_down arg =
     [Call ''TextContent'' [(''type'', PStr ''text''), (''text'', PStr ''HTTP Error: 503'')]]"

definition image_refused :: "string \<Rightarrow> exn + pyval list" where
  "image_refused prompt = Inl (Exception ''content policy violation'')"


section \<open>word\_counter.py\<close>

text \<open>
  \<open>WordCounterTool.run\<close>: \<open>word_count = len(arguments["text"].split())\<close>, returned as the
  single item \<open>TextContent(text=f"Word count: {word_count}")\<close>.
\<close>

definition word_counter_run :: "string \<Rightarrow> content list" where
  "word_counter_run text = [TextContent (''Word count: '' @ str_nat (length (split_ws text)))]"

text \<open>
  The specification's wording: the number of maximal whitespace-separated words. A maximal
  word begins at every position that holds a non-whitespace character and is either the first
  position or preceded by a whitespace character, so the words are counted by their first
  positions.
\<close>

definition word_start :: "string \<Rightarrow> nat \<Rightarrow> bool" where
  "word_start s i = (\<not> isspace (s ! i) \<and> (i = 0 \<or> isspace (s ! (i - 1))))"

definition maximal_words :: "string \<Rightarrow> nat" where
  "maximal_words s = length (filter (word_start s) [0..<length s])"

text \<open>
  The same count by one pass over the text; \<open>b\<close> tells whether a word may begin at the
  head (the head is the first character or follows a whitespace character).
\<close>

fun count_starts :: "bool \<Rightarrow> string \<Rightarrow> nat" where
  "count_starts b [] = 0"
| "count_starts b (c # cs) = (if \<not> isspace c \<and> b then 1 else 0) + count_starts (isspace c) cs"

section \<open>Predicates and example data used by the theorems\<close>

text \<open>
  A status line of \<open>OsCreateFoldersTool.run\<close> about \<open>path\<close>: one of the four lines the
  loop can append for it.
\<close>

definition status_line_for :: "string \<Rightarrow> string \<Rightarrow> bool" where
  "status_line_for path line =
     (line = ''Successfully created folder: '' @ path
      \<or> line = ''Invalid characters in path: '' @ path
      \<or> line = ''Permission denied: Unable to create folder '' @ path
      \<or> startswith line (''Error creating folder '' @ path @ '': ''))"

text \<open>
  A small file system: the process runs in \<open>/work\<close>, which holds the file \<open>notes.txt\<close>;
  \<open>/tmp/old\<close> is an empty directory and \<open>/srv\<close> a directory the process cannot write to.
\<close>

definition example_state :: os_state where
  "example_state =
     \<lparr>cwd = ''/work'', home = ''/root'',
      files = [([], Dir True), ([''work''], Dir True),
               ([''work'', ''notes.txt''], File True True (Inr ''alpha'')),
               ([''tmp''], Dir True), ([''tmp'', ''old''], Dir True),
               ([''srv''], Dir False)]\<rparr>"

text \<open>
  A stand-in for \<open>re.sub\<close> in the closed examples: it rejects the pattern \<open>(\<close> with the
  message Python gives and leaves every text as it is otherwise.
\<close>

definition example_re_sub :: regex_sub where
  "example_re_sub pattern replacement content =
     (if pattern = ''('' then ReError ''missing ), unterminated subpattern at position 0''
      else Substituted content)"

definition example_edit_args :: edit_args where
  "example_edit_args =
     \<lparr>file_path = Some ''notes.txt'', edit_type = Some ''partial'', new_content = Some ''new'',
      start_line = None, end_line = None,
      search_pattern = Some ''('', replacement_text = Some ''x''\<rparr>"

text \<open>
  Upstream scripts: three successful answers without results; two throttling answers (the
  first asks for two seconds, the second has no \<open>Retry-After\<close> header) followed by a
  successful one; a transport error.
\<close>

definition three_ok :: "answer list" where
  "three_ok = replicate 3 \<lparr>send_delay = 0, latency = 1 / 4, outcome = Inr (ok_response [])\<rparr>"

definition twice_throttled :: "answer list" where
  "twice_throttled =
     [\<lparr>send_delay = 0, latency = 1 / 4, outcome = Inr (throttled_response (Some ''2''))\<rparr>,
      \<lparr>send_delay = 0, latency = 1 / 4, outcome = Inr (throttled_response None)\<rparr>,
      \<lparr>send_delay = 0, latency = 1 / 4,
       outcome = Inr (ok_response [[(''title'', ''Isabelle'')]])\<rparr>]"

definition unreachable :: "answer list" where
  "unreachable =
     [\<lparr>send_delay = 0, latency = 1 / 4,
       outcome = Inl (Exception ''All connection attempts failed'')\<rparr>]"

text \<open>
  An answer with status 500 and a body that is not JSON; two quick successful answers; a
  process whose wall clock is set forward by one hour (the start of daylight saving time) a
  twentieth of a second after its start.
\<close>

definition server_error :: "answer list" where
  "server_error = [\<lparr>send_delay = 0, latency = 1 / 4, outcome = Inr error_response\<rparr>]"

definition two_quick :: "answer list" where
  "two_quick = replicate 2 \<lparr>send_delay = 0, latency = 1 / 10, outcome = Inr (ok_response [])\<rparr>"

definition clock_set_forward :: "answer list \<Rightarrow> world" where
  "clock_set_forward answers =
     (fresh_world answers)\<lparr>wall_offset := (\<lambda>t. if t < 1 / 20 then 0 else 3600)\<rparr>"

text \<open>
  Two successful answers, the first to a request that took half a second to leave.
\<close>

definition slow_then_quick :: "answer list" where
  "slow_then_quick =
     [\<lparr>send_delay = 1 / 2, latency = 1 / 10, outcome = Inr (ok_response [])\<rparr>,
      \<lparr>send_delay = 0, latency = 1 / 10, outcome = Inr (ok_response [])\<rparr>]"

text \<open>
  Stand-ins for the DuckDuckGo search: one finds nothing, the other finds one result with a
  title and one whose only field is blank.
\<close>

definition empty_search :: "string \<Rightarrow> int \<Rightarrow> string \<Rightarrow> exn + (string \<times> string) list list" where
  "empty_search reg n qry = Inr []"

definition example_search :: "string \<Rightarrow> int \<Rightarrow> string \<Rightarrow> exn + (string \<times> string) list list" where
  "example_search reg n qry = Inr [[(''title'', ''Isabelle'')], [(''title'', ''  '')]]"

definition no_change :: "string \<Rightarrow> string" where
  "no_change s = s"

section \<open>Verification\<close>

subsection \<open>Word counter\<close>

lemma filter_starts_count:
  "length (filter (\<lambda>i. \<not> isspace (s ! i) \<and> (if i = 0 then b else isspace (s ! (i - 1))))
             [0..<length s])
     = count_starts b s"
proof (induction s arbitrary: b)
  case Nil
  then show ?case by simp
next
  case (Cons c cs)
  have shift:
    "filter (\<lambda>i. \<not> isspace ((c # cs) ! i) \<and> (if i = 0 then b else isspace ((c # cs) ! (i - 1))))
        (map Suc [0..<length cs])
     = map Suc (filter (\<lambda>i. \<not> isspace (cs ! i) \<and> (if i = 0 then isspace c else isspace (cs ! (i - 1))))
        [0..<length cs])"
    unfolding filter_map
    by (rule arg_cong [where f = "map Suc"], rule filter_cong) (auto simp: nth_Cons')
  have upt: "[0..<length (c # cs)] = 0 # map Suc [0..<length cs]"
    by (simp add: upt_conv_Cons map_Suc_upt del: upt_Suc)
  show ?case
    unfolding upt using Cons.IH [of "isspace c"] by (simp add: shift del: upt_Suc)
qed

lemma maximal_words_count: "maximal_words s = count_starts True s"
proof -
  have "word_start s = (\<lambda>i. \<not> isspace (s ! i) \<and> (if i = 0 then True else isspace (s ! (i - 1))))"
    by (auto simp: word_start_def fun_eq_iff)
  then show ?thesis
    unfolding maximal_words_def using filter_starts_count [of s True] by simp
qed

lemma count_starts_skip_space: "count_starts True (dropWhile isspace s) = count_starts True s"
  by (induction s) auto

lemma count_starts_skip_word:
  "count_starts True (dropWhile (\<lambda>x. \<not> isspace x) s) = count_starts False s"
  by (induction s) auto

lemma length_split_ws: "length (split_ws s) = count_starts True s"
proof (induction s rule: split_ws.induct)
  case (1 s)
  show ?case
  proof (cases "dropWhile isspace s")
    case Nil
    then have "split_ws s = []"
      by (subst split_ws.simps) (simp del: dropWhile_eq_Nil_conv)
    moreover have "count_starts True s = 0"
      using count_starts_skip_space [of s] Nil by (simp del: dropWhile_eq_Nil_conv)
    ultimately show ?thesis by simp
  next
    case (Cons c cs)
    then have "\<not> isspace c"
      by (metis hd_dropWhile list.distinct(1) list.sel(1))
    then have "count_starts True (c # cs) = Suc (count_starts False cs)" by simp
    moreover have "length (split_ws s) = Suc (length (split_ws (dropWhile (\<lambda>x. \<not> isspace x) cs)))"
      using Cons by (subst split_ws.simps) simp
    ultimately show ?thesis
      using "1.IH" [OF Cons] Cons count_starts_skip_space [of s] count_starts_skip_word [of cs]
      by simp
  qed
qed

lemma word_counter_empty: "word_counter_run '''' = [TextContent ''Word count: 0'']"
  by code_simp

lemma word_counter_spaces:
  "word_counter_run ''   Too    many   spaces   '' = [TextContent ''Word count: 3'']"
  by code_simp

text \<open>
  Claim C10. \<open>WordCounterTool.run\<close> on the empty text returns the single item
  \<open>TextContent "Word count: 0"\<close>, on \<open>"   Too    many   spaces   "\<close> the single item
  \<open>TextContent "Word count: 3"\<close>, and on every text the single item whose text is
  \<open>"Word count: "\<close> followed by the decimal number of maximal whitespace-separated words
  of the text.
\<close>

theorem word_counter_run_counts_words:
  "word_counter_run '''' = [TextContent ''Word count: 0'']
   \<and> word_counter_run ''   Too    many   spaces   '' = [TextContent ''Word count: 3'']
   \<and> word_counter_run text = [TextContent (''Word count: '' @ str_nat (maximal_words text))]"
proof -
  have "word_counter_run text = [TextContent (''Word count: '' @ str_nat (maximal_words text))]"
    by (simp add: word_counter_run_def length_split_ws maximal_words_count)
  then show ?thesis
    using word_counter_empty word_counter_spaces by simp
qed

theorem word_counter_run_counts_words_witness:
  "word_counter_run ''This is four words'' = [TextContent ''Word count: 4'']
   \<and> maximal_words ''This is four words'' = 4"
proof -
  have m: "maximal_words ''This is four words'' = 4" by code_simp
  have s: "str_nat 4 = ''4''" by code_simp
  show ?thesis
    using word_counter_run_counts_words [of "''This is four words''"] m s by simp
qed

subsection \<open>File editing\<close>

text \<open>
  The existence test follows the operating system, not the spelling of the path: in the
  example file system \<open>notes.txt\<close> exists under several names, while the empty path, the
  name with a slash after it and the way through a missing directory name nothing.
\<close>

lemma path_exists_examples:
  "path_exists example_state ''notes.txt''"
  "path_exists example_state ''./notes.txt''"
  "path_exists example_state ''/work/../work//notes.txt''"
  "\<not> path_exists example_state ''''"
  "\<not> path_exists example_state ''notes.txt/''"
  "\<not> path_exists example_state ''nodir/../notes.txt''"
  "\<not> path_exists example_state ''missing.txt''"
  by code_simp+



text \<open>
  The same at the empty path and at a file name followed by a slash, where a test on the
  normalised path would have found the working directory and the file.
\<close>

lemma file_edit_missing_file_examples:
  "os_file_edit_run example_re_sub example_state (example_edit_args\<lparr>file_path := Some ''''\<rparr>)
     = ([TextContent ''File not found: ''], example_state)"
  "os_file_edit_run example_re_sub example_state
       (example_edit_args\<lparr>file_path := Some ''notes.txt/''\<rparr>)
     = ([TextContent ''File not found: notes.txt/''], example_state)"
  by (simp_all add: os_file_edit_run_def path_exists_examples)





text \<open>
  With both line numbers given the edit goes by line numbers and \<open>re.sub\<close> is never called:
  the result is the same for every \<open>re.sub\<close>.
\<close>

lemma file_edit_by_lines_ignores_pattern:
  assumes "start_line arg = Some s" and "end_line arg = Some e"
  shows "os_file_edit_run re_sub st arg = os_file_edit_run re_sub' st arg"
proof -
  have upd: "updated_content re_sub arg et nc t = updated_content re_sub' arg et nc t"
    for et nc t
    using assms by (simp add: updated_content_def)
  have body_eq: "edit_try re_sub st arg fp et nc = edit_try re_sub' st arg fp et nc" for fp et nc
    by (simp add: edit_try_def upd split: sum.splits)
  show ?thesis
    by (simp add: os_file_edit_run_def body_eq split: option.splits)
qed




text \<open>
  Without the conditions on the file the pattern is never reached: a file that is not UTF-8
  text ends the call in the handler of \<open>run\<close>, and so does another exception of \<open>re.sub\<close>;
  the file is left as it was.
\<close>

lemma file_edit_undecodable:
  assumes "file_path arg = Some fp" and "lookup st fp = Some (File True w (Inl e))"
    and "edit_type arg = Some et" and "new_content arg = Some nc"
  shows "os_file_edit_run re_sub st arg = ([TextContent (''Error editing file: '' @ str_exn e)], st)"
  using assms
  by (simp add: os_file_edit_run_def path_exists_def edit_try_def read_file_def)

lemma file_edit_re_sub_raises:
  assumes "file_path arg = Some fp" and "lookup st fp = Some (File True w (Inr raw))"
    and "edit_type arg = Some et" and "et \<noteq> ''full''" and "new_content arg = Some nc"
    and "start_line arg = None \<or> end_line arg = None"
    and "search_pattern arg = Some pat" and "pat \<noteq> ''''"
    and "replacement_text arg = Some rep" and "rep \<noteq> ''''"
    and "re_sub pat rep (universal_newlines raw) = ReRaised e"
  shows "os_file_edit_run re_sub st arg = ([TextContent (''Error editing file: '' @ str_exn e)], st)"
proof -
  have "updated_content re_sub arg et nc (universal_newlines raw) = Inl e"
    using assms
    by (auto simp: updated_content_def truthy_def find_and_replace_def split: option.splits)
  then show ?thesis
    using assms
    by (simp add: os_file_edit_run_def path_exists_def edit_try_def read_file_def)
qed

subsection \<open>Folder deletion\<close>

lemma startswith_slash: "startswith s ''/'' = (\<exists>t. s = CHR ''/'' # t)"
  by (cases s) (auto simp: startswith_def)

lemma initial_slashes_pos: "startswith s ''/'' \<Longrightarrow> 0 < initial_slashes s"
  by (simp add: initial_slashes_def)

lemma normpath_absolute:
  assumes "startswith s ''/''"
  shows "startswith (normpath s) ''/''"
proof -
  from assms obtain t where s: "s = CHR ''/'' # t" by (auto simp: startswith_slash)
  from assms have "0 < initial_slashes s" by (rule initial_slashes_pos)
  then obtain n where n: "initial_slashes s = Suc n" by (cases "initial_slashes s") auto
  show ?thesis
    using s n by (simp add: normpath_def Let_def startswith_slash)
qed

lemma path_join_absolute:
  assumes "startswith a ''/''"
  shows "startswith (path_join a b) ''/''"
  using assms by (auto simp: path_join_def startswith_slash)

lemma abspath_absolute:
  assumes "startswith (cwd st) ''/''"
  shows "startswith (abspath st p) ''/''"
  unfolding abspath_def
  using assms by (auto intro!: normpath_absolute path_join_absolute)

lemma is_safe_path_False:
  assumes "startswith (cwd st) ''/''"
  shows "\<not> is_safe_path st p"
  using abspath_absolute [OF assms, of p] by (simp add: is_safe_path_def unsafe_paths_def)

lemma delete_one_unsafe:
  assumes "startswith (cwd st) ''/''"
  shows "delete_one force st p = (''Unsafe deletion prevented for path: '' @ p, st)"
  using is_safe_path_False [OF assms] by (simp add: delete_one_def Let_def)

lemma delete_loop_unsafe:
  assumes "startswith (cwd st) ''/''"
  shows "delete_loop force st ps = (map (\<lambda>p. ''Unsafe deletion prevented for path: '' @ p) ps, st)"
  by (induction ps) (simp_all add: delete_one_unsafe [OF assms])

text \<open>
  Claim C3. The working directory of a process is an absolute path. Then \<open>_is_safe_path\<close> is
  false for every path, since every absolute path starts with \<open>/\<close>, an entry of the unsafe
  list; \<open>OsDeleteFoldersTool.run\<close> leaves the file system unchanged for every list of folder
  paths, with or without \<open>force\<close>, and for a non-empty list its one item holds the line
  \<open>"Unsafe deletion prevented for path: <path>"\<close> for each path, in order.
\<close>

theorem delete_folders_deletes_nothing:
  assumes "startswith (cwd st) ''/''"
  shows "\<not> is_safe_path st p
    \<and> snd (os_delete_folders_run st folder_paths force) = st
    \<and> (folder_paths \<noteq> [] \<longrightarrow>
         fst (os_delete_folders_run st folder_paths force) =
           [TextContent (join newline
              (map (\<lambda>p. ''Unsafe deletion prevented for path: '' @ p) folder_paths))])"
  using is_safe_path_False [OF assms] delete_loop_unsafe [OF assms]
  by (simp add: os_delete_folders_run_def)

theorem delete_folders_deletes_nothing_witness:
  "startswith (cwd example_state) ''/''
   \<and> isdir example_state ''/tmp/old''
   \<and> listdir example_state ''/tmp/old'' = []
   \<and> os_delete_folders_run example_state [''/tmp/old'', ''notes''] True =
       ([TextContent ''Unsafe deletion prevented for path: /tmp/old\<newline>Unsafe deletion prevented for path: notes''],
        example_state)"
proof -
  have c: "startswith (cwd example_state) ''/''" by code_simp
  have d: "isdir example_state ''/tmp/old''" by code_simp
  have l: "listdir example_state ''/tmp/old'' = []" by code_simp
  show ?thesis
    using delete_folders_deletes_nothing [OF c, of "''/tmp/old''" "[''/tmp/old'', ''notes'']" True] c d l
    by (simp add: prod_eq_iff newline_def)
qed

subsection \<open>Folder creation\<close>

lemma makedirs_cwd: "cwd (snd (makedirs st p)) = cwd st"
  by (simp add: makedirs_def split: prod.splits)

lemma abspath_cwd: "cwd st' = cwd st \<Longrightarrow> abspath st' p = abspath st p"
  by (simp add: abspath_def)

lemma startswith_append: "startswith (p @ s) p"
  by (simp add: startswith_def)

lemma create_one_status: "status_line_for p (fst (create_one st p))"
proof (cases "list_all (\<lambda>c. c \<notin> set invalid_chars) (abspath st (normpath p))")
  case False
  then show ?thesis by (simp add: create_one_def Let_def status_line_for_def)
next
  case True
  obtain r st' where m: "makedirs st (abspath st (normpath p)) = (r, st')"
    by (cases "makedirs st (abspath st (normpath p))")
  show ?thesis
  proof (cases r)
    case None
    with True m show ?thesis by (simp add: create_one_def Let_def status_line_for_def)
  next
    case (Some e)
    show ?thesis
    proof (cases "\<exists>t. e = PermissionError t")
      case True
      with \<open>list_all _ _\<close> m Some show ?thesis
        by (auto simp: create_one_def Let_def status_line_for_def)
    next
      case False
      with \<open>list_all _ _\<close> m Some
      have "fst (create_one st p) = (''Error creating folder '' @ p @ '': '') @ str_exn e"
        by (cases e) (simp_all add: create_one_def Let_def)
      then have "startswith (fst (create_one st p)) (''Error creating folder '' @ p @ '': '')"
        by (simp only: startswith_append)
      then show ?thesis by (simp only: status_line_for_def simp_thms)
    qed
  qed
qed

lemma create_loop_status:
  "list_all2 status_line_for paths (fst (create_loop st paths))"
proof (induction paths arbitrary: st)
  case Nil
  then show ?case by simp
next
  case (Cons p ps)
  show ?case
    using create_one_status [of p st] Cons.IH [of "snd (create_one st p)"]
    by (simp add: split_beta)
qed

lemma create_one_valid:
  assumes "list_all (\<lambda>c. c \<notin> set invalid_chars) (abspath st (normpath p))"
    and "fst (makedirs st (abspath st (normpath p))) = None"
  shows "create_one st p =
    (''Successfully created folder: '' @ p, snd (makedirs st (abspath st (normpath p))))"
  using assms by (auto simp: create_one_def Let_def split: prod.splits option.splits)

lemma create_one_invalid:
  assumes "\<not> list_all (\<lambda>c. c \<notin> set invalid_chars) (abspath st (normpath q))"
  shows "create_one st q = (''Invalid characters in path: '' @ q, st)"
  using assms by (simp add: create_one_def Let_def)

text \<open>
  Claim C9, as stated, fails for a path whose disallowed character disappears when the path
  is normalised: \<open>a?/..\<close> contains \<open>?\<close>, but its normalised absolute path is the working
  directory, so the tool reports success for it.
\<close>

theorem create_folders_counterexample:
  "CHR ''?'' \<in> set ''a?/..'' \<and> CHR ''?'' \<in> set invalid_chars
   \<and> fst (os_create_folders_run example_state [''ok'', ''a?/..'']) =
       [TextContent ''Successfully created folder: ok\<newline>Successfully created folder: a?/..'']"
  by code_simp

text \<open>
  Claim C9, amended. Let \<open>p\<close> be a path whose normalised absolute path has no disallowed
  character and which \<open>os.makedirs\<close> creates, and \<open>q\<close> a path whose normalised absolute path
  contains a disallowed character. Then the text returned for \<open>[p, q]\<close> is the success line
  for \<open>p\<close> followed by the failure line for \<open>q\<close>, and for \<open>[q, p]\<close> the two lines in the other
  order. For every list of paths the loop yields exactly one status line per path, in the
  order of the list, whatever failed on the way.
\<close>

theorem create_folders_valid_and_invalid:
  assumes valid: "list_all (\<lambda>c. c \<notin> set invalid_chars) (abspath st (normpath p))"
    and made: "fst (makedirs st (abspath st (normpath p))) = None"
    and invalid: "\<not> list_all (\<lambda>c. c \<notin> set invalid_chars) (abspath st (normpath q))"
  shows "fst (os_create_folders_run st [p, q]) =
           [TextContent (''Successfully created folder: '' @ p @ newline
                           @ ''Invalid characters in path: '' @ q)]
    \<and> fst (os_create_folders_run st [q, p]) =
           [TextContent (''Invalid characters in path: '' @ q @ newline
                           @ ''Successfully created folder: '' @ p)]
    \<and> list_all2 status_line_for paths (fst (create_loop st paths))"
proof -
  let ?st' = "snd (makedirs st (abspath st (normpath p)))"
  have "abspath ?st' (normpath q) = abspath st (normpath q)"
    by (rule abspath_cwd) (rule makedirs_cwd)
  with invalid have inv': "create_one ?st' q = (''Invalid characters in path: '' @ q, ?st')"
    by (simp add: create_one_invalid)
  have pq: "create_loop st [p, q] =
      ([''Successfully created folder: '' @ p, ''Invalid characters in path: '' @ q], ?st')"
    by (simp add: create_one_valid [OF valid made] inv')
  have qp: "create_loop st [q, p] =
      ([''Invalid characters in path: '' @ q, ''Successfully created folder: '' @ p], ?st')"
    by (simp add: create_one_valid [OF valid made] create_one_invalid [OF invalid])
  show ?thesis
    using create_loop_status [of paths st]
    by (simp add: os_create_folders_run_def pq qp del: create_loop.simps)
qed

theorem create_folders_valid_and_invalid_witness:
  "list_all (\<lambda>c. c \<notin> set invalid_chars) (abspath example_state (normpath ''ok/deep''))
   \<and> fst (makedirs example_state (abspath example_state (normpath ''ok/deep''))) = None
   \<and> \<not> list_all (\<lambda>c. c \<notin> set invalid_chars) (abspath example_state (normpath ''bad*name''))
   \<and> fst (os_create_folders_run example_state [''ok/deep'', ''bad*name'']) =
        [TextContent ''Successfully created folder: ok/deep\<newline>Invalid characters in path: bad*name'']
   \<and> fst (os_create_folders_run example_state [''bad*name'', ''ok/deep'']) =
        [TextContent ''Invalid characters in path: bad*name\<newline>Successfully created folder: ok/deep'']
   \<and> list_all2 status_line_for [''/srv/x'', ''bad*name'', ''ok/deep'']
        (fst (create_loop example_state [''/srv/x'', ''bad*name'', ''ok/deep'']))"
proof -
  have v: "list_all (\<lambda>c. c \<notin> set invalid_chars) (abspath example_state (normpath ''ok/deep''))"
    by code_simp
  have m: "fst (makedirs example_state (abspath example_state (normpath ''ok/deep''))) = None"
    by code_simp
  have i: "\<not> list_all (\<lambda>c. c \<notin> set invalid_chars) (abspath example_state (normpath ''bad*name''))"
    by code_simp
  show ?thesis
    using create_folders_valid_and_invalid [OF v m i, of "[''/srv/x'', ''bad*name'', ''ok/deep'']"] v m i
    by (simp add: newline_def)
qed

subsection \<open>Brave web search\<close>

lemma rate_limit_sel [simp]:
  "sent (rate_limit w) = sent w" "upstream (rate_limit w) = upstream w"
  "wall_offset (rate_limit w) = wall_offset w"
  by (auto simp: rate_limit_def sleep_def Let_def split: option.splits)

lemma rate_limit_clock: "clock w \<le> clock (rate_limit w)"
  by (auto simp: rate_limit_def sleep_def Let_def split: option.splits)

lemma client_get_sel [simp]:
  "sent (snd (client_get rq w))
     = sent w @ [(clock w + send_delay (upstream w (length (sent w))), rq)]"
  "upstream (snd (client_get rq w)) = upstream w"
  "wall_offset (snd (client_get rq w)) = wall_offset w"
  "clock (snd (client_get rq w))
     = clock w + send_delay (upstream w (length (sent w))) + latency (upstream w (length (sent w)))"
  "last_request_time (snd (client_get rq w)) = last_request_time w"
  "fst (client_get rq w) = outcome (upstream w (length (sent w)))"
  by (simp_all add: client_get_def Let_def)

lemma sleep_sel [simp]:
  "sent (sleep d w) = sent w" "upstream (sleep d w) = upstream w"
  "wall_offset (sleep d w) = wall_offset w"
  "clock (sleep d w) = clock w + max d 0"
  "last_request_time (sleep d w) = last_request_time w"
  by (simp_all add: sleep_def)

text \<open>One round of \<open>run\<close>, written with the world after the request.\<close>

lemma brave_run_Suc:
  assumes "truthy key"
  shows "brave_run (Suc n) key arg w =
     (let w2 = snd (client_get (brave_request key arg) (rate_limit w))
      in case outcome (upstream w (length (sent w))) of
           Inl e \<Rightarrow> (Inl e, w2)
         | Inr response \<Rightarrow>
             if status_code response = 429 then
               (case retry_after_seconds response of
                  Inl e \<Rightarrow> (Inl e, w2)
                | Inr d \<Rightarrow> brave_run n key arg (sleep (real_of_int d) w2))
             else (final_result response, w2))"
proof -
  obtain r w2 where cg: "client_get (brave_request key arg) (rate_limit w) = (r, w2)"
    by (cases "client_get (brave_request key arg) (rate_limit w)")
  have r: "r = outcome (upstream w (length (sent w)))"
    using client_get_sel(6) [of "brave_request key arg" "rate_limit w"] cg by simp
  show ?thesis
    using assms cg r by (simp add: Let_def del: client_get_sel)
qed

lemma scripted_simps:
  "scripted (a # as) 0 = a"
  "scripted (a # as) (Suc n) = scripted as n"
  "scripted [] n
     = \<lparr>send_delay = 0, latency = 0, outcome = Inl (Exception ''All connection attempts failed'')\<rparr>"
  by (simp_all add: scripted_def)

lemma py_int_2: "py_int ''2'' = Inr 2"
  by code_simp

text \<open>
  Claim C1 (the code departs from it). \<open>WebBraveWebSearchTool.run\<close> has no handler: when
  \<open>client.get\<close> raises, the exception leaves \<open>run\<close> and no content sequence is returned.
\<close>

theorem brave_run_transport_error_escapes:
  assumes "truthy key" and "outcome (upstream w (length (sent w))) = Inl e"
  shows "fst (brave_run (Suc n) key arg w) = Inl e"
  using assms by (simp add: brave_run_Suc Let_def del: brave_run.simps)

theorem brave_run_transport_error_escapes_witness:
  "truthy (Some ''key'')
   \<and> outcome (upstream (fresh_world unreachable) (length (sent (fresh_world unreachable))))
       = Inl (Exception ''All connection attempts failed'')
   \<and> fst (brave_run 1 (Some ''key'') example_brave_args (fresh_world unreachable))
       = Inl (Exception ''All connection attempts failed'')"
proof -
  have k: "truthy (Some ''key'')" by (simp add: truthy_def)
  have o: "outcome (upstream (fresh_world unreachable) (length (sent (fresh_world unreachable))))
       = Inl (Exception ''All connection attempts failed'')"
    by (simp add: fresh_world_def unreachable_def scripted_simps)
  show ?thesis
    using brave_run_transport_error_escapes [OF k o, of 0 example_brave_args] k o by simp
qed

text \<open>
  Claim C2, as stated, fails: \<open>run\<close> retries after every 429 answer. When the API answers
  429 twice and then 200, three requests are sent, at the times 0, 9/4 and 7/2.
\<close>

theorem brave_run_retry_counterexample:
  "is_429 (twice_throttled ! 0) \<and> is_429 (twice_throttled ! 1)
   \<and> map fst (sent (snd (brave_run 3 (Some ''key'') example_brave_args
                            (fresh_world twice_throttled))))
       = [0, 9 / 4, 7 / 2]"
  by (simp add: fresh_world_def scripted_simps truthy_def rate_limit_def client_get_def Let_def
        ok_response_def throttled_response_def numeral_3_eq_3 retry_after_seconds_def sleep_def
        RATE_LIMIT_def twice_throttled_def py_int_2 final_result_def is_429_def
        datetime_now_def)

text \<open>
  A chain of retries, by induction on its length: the requests sent before stay, the first
  request of the run is not sent before the run begins, and each retry is sent no earlier
  than the arrival of the 429 answer before it plus the delay that answer asks for.
\<close>

lemma brave_retry:
  assumes key: "truthy key"
  shows "\<lbrakk>\<forall>i. 0 \<le> send_delay (upstream w i);
          \<forall>i<k. retry_delay (upstream w (length (sent w) + i)) \<noteq> None;
          \<not> is_429 (upstream w (length (sent w) + k)); k < n\<rbrakk>
    \<Longrightarrow> fst (brave_run n key arg w) = ending (upstream w (length (sent w) + k))
        \<and> length (sent (snd (brave_run n key arg w))) = length (sent w) + k + 1
        \<and> upstream (snd (brave_run n key arg w)) = upstream w
        \<and> take (length (sent w)) (sent (snd (brave_run n key arg w))) = sent w
        \<and> clock w \<le> fst (sent (snd (brave_run n key arg w)) ! length (sent w))
        \<and> (\<forall>i<k. fst (sent (snd (brave_run n key arg w)) ! (length (sent w) + i))
                    + latency (upstream w (length (sent w) + i))
                    + delay_seconds (upstream w (length (sent w) + i))
                  \<le> fst (sent (snd (brave_run n key arg w)) ! (length (sent w) + i + 1)))"
proof (induction k arbitrary: w n)
  case 0
  then obtain n' where n: "n = Suc n'" by (cases n) auto
  define a where "a = upstream w (length (sent w))"
  define w2 where "w2 = snd (client_get (brave_request key arg) (rate_limit w))"
  have s2: "sent w2 = sent w @ [(clock (rate_limit w) + send_delay a, brave_request key arg)]"
    and up: "upstream w2 = upstream w"
    by (simp_all add: w2_def a_def)
  have clk: "clock w \<le> clock (rate_limit w) + send_delay a"
    using rate_limit_clock [of w] "0.prems"(1) by (simp add: a_def add_increasing2)
  have not429: "\<not> is_429 a" using "0.prems"(3) by (simp add: a_def)
  have run: "brave_run n key arg w = (ending a, w2)"
    unfolding n brave_run_Suc [OF key] w2_def [symmetric] Let_def
    using not429 by (auto simp: is_429_def ending_def a_def split: sum.splits)
  show ?case
    using clk by (simp add: run s2 up a_def)
next
  case (Suc k)
  then obtain n' where n: "n = Suc n'" and kn: "k < n'" by (cases n) auto
  define l where "l = length (sent w)"
  define a where "a = upstream w l"
  define w2 where "w2 = snd (client_get (brave_request key arg) (rate_limit w))"
  define s0 where "s0 = clock (rate_limit w) + send_delay a"
  from Suc.prems(2) have "retry_delay (upstream w (length (sent w) + 0)) \<noteq> None" by blast
  then obtain d where d: "retry_delay a = Some d" by (auto simp: a_def l_def)
  then obtain r where r: "outcome a = Inr r" "status_code r = 429" "retry_after_seconds r = Inr d"
    by (auto simp: retry_delay_def split: sum.splits if_splits)
  define w3 where "w3 = sleep (real_of_int d) w2"
  have s3: "sent w3 = sent w @ [(s0, brave_request key arg)]"
    and up3: "upstream w3 = upstream w"
    by (simp_all add: w3_def w2_def s0_def a_def l_def)
  have len3: "length (sent w3) = l + 1" by (simp add: s3 l_def)
  have clk0: "clock w \<le> s0"
    using rate_limit_clock [of w] Suc.prems(1) by (simp add: s0_def a_def add_increasing2)
  have clk3: "clock w3 = s0 + latency a + delay_seconds a"
    using d by (simp add: w3_def w2_def s0_def a_def l_def delay_seconds_def)
  have step: "brave_run n key arg w = brave_run n' key arg w3"
    unfolding n brave_run_Suc [OF key] w2_def [symmetric] Let_def w3_def
    using r by (simp add: a_def l_def)
  define w' where "w' = snd (brave_run n' key arg w3)"
  have p1: "\<forall>i. 0 \<le> send_delay (upstream w3 i)" using Suc.prems(1) up3 by simp
  have p2: "\<forall>i<k. retry_delay (upstream w3 (length (sent w3) + i)) \<noteq> None"
    using Suc.prems(2) up3 len3 by (auto simp: add.assoc l_def)
  have p3: "\<not> is_429 (upstream w3 (length (sent w3) + k))"
    using Suc.prems(3) up3 len3 by (simp add: add.assoc l_def)
  from Suc.IH [OF p1 p2 p3 kn, folded w'_def] have
    res: "fst (brave_run n' key arg w3) = ending (upstream w3 (length (sent w3) + k))"
    and len: "length (sent w') = length (sent w3) + k + 1"
    and up: "upstream w' = upstream w3"
    and pre: "take (length (sent w3)) (sent w') = sent w3"
    and first: "clock w3 \<le> fst (sent w' ! length (sent w3))"
    and waits: "\<forall>i<k. fst (sent w' ! (length (sent w3) + i))
                    + latency (upstream w3 (length (sent w3) + i))
                    + delay_seconds (upstream w3 (length (sent w3) + i))
                  \<le> fst (sent w' ! (length (sent w3) + i + 1))"
    by blast+
  have pre3: "take (l + 1) (sent w') = sent w @ [(s0, brave_request key arg)]"
    using pre by (simp add: len3 s3 l_def)
  have "take l (take (l + 1) (sent w')) = take l (sent w @ [(s0, brave_request key arg)])"
    by (simp only: pre3)
  then have pre0: "take l (sent w') = sent w" by (simp add: l_def min_def)
  have "take (l + 1) (sent w') ! l = (sent w @ [(s0, brave_request key arg)]) ! l"
    by (simp only: pre3)
  then have at0: "sent w' ! l = (s0, brave_request key arg)" by (simp add: l_def)
  have first3: "s0 + latency a + delay_seconds a \<le> fst (sent w' ! (l + 1))"
    using first by (simp add: clk3 len3)
  have waits0: "fst (sent w' ! (l + i)) + latency (upstream w (l + i))
                  + delay_seconds (upstream w (l + i))
                \<le> fst (sent w' ! (l + i + 1))" if "i < Suc k" for i
  proof (cases i)
    case 0
    then show ?thesis using first3 at0 by (simp add: a_def)
  next
    case (Suc j)
    with that have "j < k" by simp
    with waits have "fst (sent w' ! (length (sent w3) + j))
                    + latency (upstream w3 (length (sent w3) + j))
                    + delay_seconds (upstream w3 (length (sent w3) + j))
                  \<le> fst (sent w' ! (length (sent w3) + j + 1))" by blast
    then show ?thesis by (simp add: Suc len3 up3 add.assoc)
  qed
  have "fst (brave_run n key arg w) = ending (upstream w (l + Suc k))"
    using res by (simp add: step up3 len3 add.assoc)
  moreover have "length (sent w') = l + Suc k + 1" using len by (simp add: len3)
  moreover have "upstream w' = upstream w" using up up3 by simp
  moreover have "clock w \<le> fst (sent w' ! l)" using clk0 by (simp add: at0)
  ultimately show ?case
    using pre0 waits0 unfolding step w'_def [symmetric] l_def [symmetric] by blast
qed

text \<open>
  Claim C2, amended. \<open>run\<close> retries after every 429 answer, not once. Let the first \<open>k\<close>
  answers be 429 responses whose \<open>Retry-After\<close> header is absent or accepted by \<open>int\<close>, let
  the answer after them be no 429 response, and let \<open>k\<close> be less than the number of nested
  invocations of \<open>run\<close> that the recursion limit of the interpreter allows. Then \<open>run\<close>
  sends exactly \<open>k + 1\<close> requests and ends as it does on the last answer, and each retry is
  sent no earlier than the arrival of the 429 answer before it plus the seconds of its
  \<open>Retry-After\<close> header (one second without the header, none for a negative number).
\<close>

theorem brave_run_retries_after_every_429:
  assumes "truthy key"
    and "\<forall>i. 0 \<le> send_delay (upstream w i)"
    and "\<forall>i<k. retry_delay (upstream w (length (sent w) + i)) \<noteq> None"
    and "\<not> is_429 (upstream w (length (sent w) + k))"
    and "k < n"
  shows "length (sent (snd (brave_run n key arg w))) = length (sent w) + k + 1
         \<and> fst (brave_run n key arg w) = ending (upstream w (length (sent w) + k))
         \<and> (\<forall>i<k. fst (sent (snd (brave_run n key arg w)) ! (length (sent w) + i))
                     + latency (upstream w (length (sent w) + i))
                     + delay_seconds (upstream w (length (sent w) + i))
                   \<le> fst (sent (snd (brave_run n key arg w)) ! (length (sent w) + i + 1)))"
  using brave_retry [OF assms] by blast

lemma twice_throttled_facts:
  "\<forall>i. 0 \<le> send_delay (upstream (fresh_world twice_throttled) i)"
  "retry_delay (upstream (fresh_world twice_throttled) 0) = Some 2"
  "retry_delay (upstream (fresh_world twice_throttled) 1) = Some 1"
  "\<not> is_429 (upstream (fresh_world twice_throttled) 2)"
  "latency (upstream (fresh_world twice_throttled) 0) = 1 / 4"
  "latency (upstream (fresh_world twice_throttled) 1) = 1 / 4"
  "ending (upstream (fresh_world twice_throttled) 2)
     = Inr [TextContent ''Title: Isabelle\<newline>Description: \<newline>URL: '']"
proof -
  show "\<forall>i. 0 \<le> send_delay (upstream (fresh_world twice_throttled) i)"
  proof
    fix i :: nat
    consider "i = 0" | "i = 1" | "i = 2" | "3 \<le> i" by linarith
    then show "0 \<le> send_delay (upstream (fresh_world twice_throttled) i)"
      by cases (simp_all add: fresh_world_def twice_throttled_def scripted_def)
  qed
qed (simp_all add: fresh_world_def twice_throttled_def scripted_def retry_delay_def is_429_def
       throttled_response_def ok_response_def retry_after_seconds_def py_int_2 ending_def
       final_result_def format_result_def dict_get_def newline_def)

theorem brave_run_retries_after_every_429_witness:
  "truthy (Some ''key'')
   \<and> (\<forall>i. 0 \<le> send_delay (upstream (fresh_world twice_throttled) i))
   \<and> retry_delay (upstream (fresh_world twice_throttled) 0) \<noteq> None
   \<and> retry_delay (upstream (fresh_world twice_throttled) 1) \<noteq> None
   \<and> \<not> is_429 (upstream (fresh_world twice_throttled) 2)
   \<and> length (sent (snd (brave_run 3 (Some ''key'') example_brave_args
                           (fresh_world twice_throttled)))) = 3
   \<and> fst (brave_run 3 (Some ''key'') example_brave_args (fresh_world twice_throttled))
       = Inr [TextContent ''Title: Isabelle\<newline>Description: \<newline>URL: '']
   \<and> fst (sent (snd (brave_run 3 (Some ''key'') example_brave_args
                        (fresh_world twice_throttled))) ! 0) + 1 / 4 + 2
       \<le> fst (sent (snd (brave_run 3 (Some ''key'') example_brave_args
                            (fresh_world twice_throttled))) ! 1)
   \<and> fst (sent (snd (brave_run 3 (Some ''key'') example_brave_args
                        (fresh_world twice_throttled))) ! 1) + 1 / 4 + 1
       \<le> fst (sent (snd (brave_run 3 (Some ''key'') example_brave_args
                            (fresh_world twice_throttled))) ! 2)"
proof -
  define w' where
    "w' = snd (brave_run 3 (Some ''key'') example_brave_args (fresh_world twice_throttled))"
  have k: "truthy (Some ''key'')" by (simp add: truthy_def)
  have s: "sent (fresh_world twice_throttled) = []"
    by (simp add: fresh_world_def)
  have h: "\<forall>i<2. retry_delay (upstream (fresh_world twice_throttled)
                     (length (sent (fresh_world twice_throttled)) + i)) \<noteq> None"
    using twice_throttled_facts(2,3) by (simp add: s less_Suc_eq numeral_2_eq_2)
  have f: "\<not> is_429 (upstream (fresh_world twice_throttled)
                      (length (sent (fresh_world twice_throttled)) + 2))"
    using twice_throttled_facts(4) by (simp add: s numeral_2_eq_2)
  have d: "delay_seconds (upstream (fresh_world twice_throttled) 0) = 2"
      "delay_seconds (upstream (fresh_world twice_throttled) 1) = 1"
    using twice_throttled_facts(2,3) by (simp_all add: delay_seconds_def)
  from brave_run_retries_after_every_429 [OF k twice_throttled_facts(1) h f,
      of 3 example_brave_args, folded w'_def]
  have l: "length (sent w') = 3"
    and e: "fst (brave_run 3 (Some ''key'') example_brave_args (fresh_world twice_throttled))
              = ending (upstream (fresh_world twice_throttled) 2)"
    and a: "\<forall>i<2. fst (sent w' ! i) + latency (upstream (fresh_world twice_throttled) i)
                     + delay_seconds (upstream (fresh_world twice_throttled) i)
                   \<le> fst (sent w' ! (i + 1))"
    by (simp_all add: s numeral_2_eq_2 numeral_3_eq_3)
  from a have a0: "fst (sent w' ! 0) + 1 / 4 + 2 \<le> fst (sent w' ! 1)"
    using twice_throttled_facts(5) d(1) by (auto simp: numeral_2_eq_2 less_Suc_eq)
  from a have a1: "fst (sent w' ! 1) + 1 / 4 + 1 \<le> fst (sent w' ! 2)"
    using twice_throttled_facts(6) d(2) by (auto simp: numeral_2_eq_2 less_Suc_eq)
  show ?thesis
    using k twice_throttled_facts(1-4) l e a0 a1
    unfolding w'_def twice_throttled_facts(7) by simp
qed

text \<open>
  Where the conditions of the amended claim fail, \<open>run\<close> ends otherwise. A \<open>Retry-After\<close>
  header that \<open>int\<close> rejects (an HTTP date) makes \<open>run\<close> raise \<open>ValueError\<close> without a
  retry. And when the API keeps answering 429, \<open>run\<close> sends as many requests as the
  interpreter allows nested invocations and then raises \<open>RecursionError\<close>.
\<close>

lemma brave_run_retry_after_rejected:
  assumes "truthy key" and "outcome (upstream w (length (sent w))) = Inr r"
    and "status_code r = 429" and "retry_after_seconds r = Inl e"
  shows "fst (brave_run (Suc n) key arg w) = Inl e
         \<and> length (sent (snd (brave_run (Suc n) key arg w))) = length (sent w) + 1"
  using assms by (simp add: brave_run_Suc Let_def del: brave_run.simps)

lemma brave_run_recursion_limit:
  assumes key: "truthy key"
  shows "\<forall>i<n. retry_delay (upstream w (length (sent w) + i)) \<noteq> None
    \<Longrightarrow> fst (brave_run n key arg w) = Inl recursion_error
        \<and> length (sent (snd (brave_run n key arg w))) = length (sent w) + n
        \<and> upstream (snd (brave_run n key arg w)) = upstream w"
proof (induction n arbitrary: w)
  case 0
  show ?case by simp
next
  case (Suc n)
  define a where "a = upstream w (length (sent w))"
  define w2 where "w2 = snd (client_get (brave_request key arg) (rate_limit w))"
  from Suc.prems have "retry_delay (upstream w (length (sent w) + 0)) \<noteq> None" by blast
  then obtain d where d: "retry_delay a = Some d" by (auto simp: a_def)
  then obtain r where r: "outcome a = Inr r" "status_code r = 429" "retry_after_seconds r = Inr d"
    by (auto simp: retry_delay_def split: sum.splits if_splits)
  define w3 where "w3 = sleep (real_of_int d) w2"
  have len3: "length (sent w3) = length (sent w) + 1" and up3: "upstream w3 = upstream w"
    by (simp_all add: w3_def w2_def)
  have step: "brave_run (Suc n) key arg w = brave_run n key arg w3"
    unfolding brave_run_Suc [OF key] w2_def [symmetric] Let_def w3_def
    using r by (simp add: a_def)
  have "\<forall>i<n. retry_delay (upstream w3 (length (sent w3) + i)) \<noteq> None"
    using Suc.prems up3 len3 by (auto simp: add.assoc)
  from Suc.IH [OF this] show ?case
    by (simp add: step len3 up3 del: brave_run.simps)
qed

subsection \<open>Rate limiting\<close>

lemma spaced_append:
  "spaced (ts @ [u]) = (spaced ts \<and> (ts = [] \<or> 1 / RATE_LIMIT \<le> u - last ts))"
  by (induction ts rule: spaced.induct) auto

lemma rate_limit_last: "last_request_time (rate_limit w) = Some (datetime_now (rate_limit w))"
  by (simp add: rate_limit_def Let_def datetime_now_def)

text \<open>
  When the wall clock is never set forward, the rate limiter lets a second of the event
  loop pass after the moment \<open>u\<close> whose wall clock reading \<open>LAST_REQUEST_TIME\<close> holds.
\<close>

lemma rate_limit_waits:
  assumes last: "last_request_time w = Some t"
    and stamp: "u + wall_offset w u \<le> t"
    and past: "u \<le> clock w"
    and mono: "never_set_forward w"
  shows "u + 1 / RATE_LIMIT \<le> clock (rate_limit w)"
proof -
  have off: "wall_offset w (clock w) \<le> wall_offset w u"
    using mono past by (simp add: never_set_forward_def)
  show ?thesis
  proof (cases "datetime_now w - t < 1 / RATE_LIMIT")
    case True
    then have "clock (rate_limit w) = clock w + (1 / RATE_LIMIT - (datetime_now w - t))"
      using last by (simp add: rate_limit_def Let_def max_def)
    then show ?thesis
      using off stamp by (simp add: datetime_now_def)
  next
    case False
    then have "clock (rate_limit w) = clock w"
      using last by (simp add: rate_limit_def Let_def)
    then show ?thesis
      using False off stamp by (simp add: datetime_now_def)
  qed
qed

lemma request_keeps_rate:
  assumes inv: "rate_respected c w" and mono: "never_set_forward w"
    and net: "steady_network c w"
  shows "rate_respected c (snd (client_get rq (rate_limit w)))"
proof -
  define w1 where "w1 = rate_limit w"
  have c: "0 \<le> c" "send_delay (upstream w (length (sent w))) = c"
      "0 \<le> latency (upstream w (length (sent w)))"
    using net by (simp_all add: steady_network_def)
  have stamp: "last_request_time w1 = Some (clock w1 + wall_offset w (clock w1))"
    by (simp add: w1_def rate_limit_last datetime_now_def)
  have sel: "sent w1 = sent w" "upstream w1 = upstream w" "wall_offset w1 = wall_offset w"
    by (simp_all add: w1_def)
  show ?thesis
  proof (cases "sent w = []")
    case True
    then show ?thesis
      using c stamp by (simp add: rate_respected_def w1_def [symmetric] sel)
  next
    case False
    with inv obtain t where t: "last_request_time w = Some t"
        "fst (last (sent w)) \<le> clock w"
        "fst (last (sent w)) - c + wall_offset w (fst (last (sent w)) - c) \<le> t"
      by (auto simp: rate_respected_def split: option.splits)
    have "fst (last (sent w)) - c \<le> clock w" using t(2) c(1) by linarith
    from rate_limit_waits [OF t(1) t(3) this mono]
    have "1 / RATE_LIMIT \<le> clock w1 + c - fst (last (sent w))"
      by (simp add: w1_def)
    with inv False show ?thesis
      using c stamp
      by (simp add: rate_respected_def w1_def [symmetric] sel spaced_append last_map)
  qed
qed

lemma sleep_keeps_rate: "rate_respected c w \<Longrightarrow> rate_respected c (sleep d w)"
  by (auto simp: rate_respected_def split: option.splits)

lemma sleep_keeps_world:
  "never_set_forward (sleep d w) = never_set_forward w"
  "steady_network c (sleep d w) = steady_network c w"
  by (simp_all add: never_set_forward_def steady_network_def)

lemma request_keeps_world:
  "never_set_forward (snd (client_get rq (rate_limit w))) = never_set_forward w"
  "steady_network c (snd (client_get rq (rate_limit w))) = steady_network c w"
  by (simp_all add: never_set_forward_def steady_network_def)

text \<open>
  One invocation keeps the invariant, however it ends: with items, with an exception of the
  request, or with the \<open>RecursionError\<close> that ends a chain of 429 answers.
\<close>

lemma brave_run_keeps_rate:
  "\<lbrakk>rate_respected c w; never_set_forward w; steady_network c w\<rbrakk>
    \<Longrightarrow> rate_respected c (snd (brave_run n key arg w))
        \<and> never_set_forward (snd (brave_run n key arg w))
        \<and> steady_network c (snd (brave_run n key arg w))"
proof (induction n arbitrary: w)
  case 0
  then show ?case by simp
next
  case (Suc n)
  show ?case
  proof (cases "truthy key")
    case False
    with Suc.prems show ?thesis by simp
  next
    case True
    define w2 where "w2 = snd (client_get (brave_request key arg) (rate_limit w))"
    have r2: "rate_respected c w2"
      unfolding w2_def using Suc.prems by (rule request_keeps_rate)
    have m2: "never_set_forward w2" "steady_network c w2"
      unfolding w2_def using Suc.prems by (simp_all add: request_keeps_world)
    have again: "rate_respected c (snd (brave_run n key arg (sleep d w2)))
        \<and> never_set_forward (snd (brave_run n key arg (sleep d w2)))
        \<and> steady_network c (snd (brave_run n key arg (sleep d w2)))" for d
      using r2 m2 by (intro Suc.IH) (simp_all add: sleep_keeps_rate sleep_keeps_world)
    show ?thesis
      unfolding brave_run_Suc [OF True] w2_def [symmetric] Let_def
      using r2 m2 again by (auto split: sum.splits)
  qed
qed

lemma sequential_keeps_rate:
  "\<lbrakk>rate_respected c w; never_set_forward w; steady_network c w\<rbrakk>
    \<Longrightarrow> rate_respected c (sequential n key calls w)"
proof (induction calls arbitrary: w)
  case Nil
  then show ?case by simp
next
  case (Cons call calls)
  obtain pause arg where call: "call = (pause, arg)" by (cases call)
  have "rate_respected c (sleep pause w)" "never_set_forward (sleep pause w)"
      "steady_network c (sleep pause w)"
    using Cons.prems by (simp_all add: sleep_keeps_rate sleep_keeps_world)
  from brave_run_keeps_rate [OF this, of n key arg] show ?case
    unfolding call by (simp add: Cons.IH)
qed

text \<open>
  The machine that cuts \<open>run\<close> at its \<open>await\<close> points does what \<open>run\<close> does when one
  invocation runs alone: it reaches the result of \<open>brave_run\<close>.
\<close>

lemma run_alone_Returned: "run_alone (Suc m) key arg (Returned r) w = Some (r, w)"
  by simp

lemma run_alone_Called:
  "run_alone (Suc m) key arg (Called n) w =
     run_alone m key arg (fst (start key arg n w)) (snd (start key arg n w))"
  by (simp add: wake_time_def resume_def split_beta)

lemma run_alone_Backoff:
  "run_alone (Suc m) key arg (Backoff n u) w
     = run_alone (Suc m) key arg (Called n) (w\<lparr>clock := u\<rparr>)"
  by (simp add: wake_time_def resume_def split_beta)

lemma run_alone_Waiting:
  "run_alone (Suc m) key arg (Waiting n u r) w =
     run_alone m key arg (on_answer r n (w\<lparr>clock := u\<rparr>)) (w\<lparr>clock := u\<rparr>)"
  by (simp add: wake_time_def resume_def)

lemma run_alone_Throttled:
  "run_alone (Suc m) key arg (Throttled n u) w =
     run_alone m key arg (fst (send_request key arg n (w\<lparr>clock := u\<rparr>)))
       (snd (send_request key arg n (w\<lparr>clock := u\<rparr>)))"
  by (simp add: wake_time_def resume_def split_beta)

lemma send_then_wait:
  "run_alone (Suc m) key arg (fst (send_request key arg n w)) (snd (send_request key arg n w)) =
     run_alone m key arg
       (on_answer (outcome (upstream w (length (sent w)))) n
          (snd (client_get (brave_request key arg)
                  (w\<lparr>last_request_time := Some (datetime_now w)\<rparr>))))
       (snd (client_get (brave_request key arg)
               (w\<lparr>last_request_time := Some (datetime_now w)\<rparr>)))"
  by (simp add: send_request_def Let_def run_alone_Waiting client_get_def del: run_alone.simps)

lemma to_the_answer:
  assumes "truthy key"
  shows "\<exists>j. \<forall>m. run_alone (j + m) key arg (Called (Suc n)) w =
     run_alone m key arg
       (on_answer (outcome (upstream w (length (sent w)))) n
          (snd (client_get (brave_request key arg) (rate_limit w))))
       (snd (client_get (brave_request key arg) (rate_limit w)))"
proof (cases "\<exists>t. last_request_time w = Some t \<and> datetime_now w - t < 1 / RATE_LIMIT")
  case False
  then have rl: "rate_limit w = w\<lparr>last_request_time := Some (datetime_now w)\<rparr>"
    by (auto simp: rate_limit_def Let_def split: option.splits)
  from False assms have st: "start key arg (Suc n) w = send_request key arg n w"
    by (auto simp: start_def Let_def split: option.splits)
  have "\<forall>m. run_alone (2 + m) key arg (Called (Suc n)) w =
     run_alone m key arg
       (on_answer (outcome (upstream w (length (sent w)))) n
          (snd (client_get (brave_request key arg) (rate_limit w))))
       (snd (client_get (brave_request key arg) (rate_limit w)))"
    using send_then_wait [of _ key arg n w]
    by (simp add: run_alone_Called st rl del: run_alone.simps)
  then show ?thesis by blast
next
  case True
  then obtain t where t: "last_request_time w = Some t" "datetime_now w - t < 1 / RATE_LIMIT"
    by blast
  define u where "u = clock w + (1 / RATE_LIMIT - (datetime_now w - t))"
  define w1 where "w1 = w\<lparr>clock := u\<rparr>"
  from t have rl: "rate_limit w = w1\<lparr>last_request_time := Some (datetime_now w1)\<rparr>"
    by (simp add: rate_limit_def Let_def sleep_def w1_def u_def max_def)
  from t assms have st: "start key arg (Suc n) w = (Throttled n u, w)"
    by (simp add: start_def Let_def u_def)
  have up: "upstream w1 (length (sent w1)) = upstream w (length (sent w))"
    by (simp add: w1_def)
  have "\<forall>m. run_alone (3 + m) key arg (Called (Suc n)) w =
     run_alone m key arg
       (on_answer (outcome (upstream w (length (sent w)))) n
          (snd (client_get (brave_request key arg) (rate_limit w))))
       (snd (client_get (brave_request key arg) (rate_limit w)))"
    using send_then_wait [of _ key arg n w1]
    by (simp add: run_alone_Called st run_alone_Throttled rl up w1_def [symmetric]
          numeral_3_eq_3 del: run_alone.simps)
  then show ?thesis by blast
qed

lemma run_alone_simulates:
  "\<exists>m. run_alone m key arg (Called n) w = Some (brave_run n key arg w)"
proof (induction n arbitrary: w)
  case 0
  have "run_alone 2 key arg (Called 0) w = Some (brave_run 0 key arg w)"
    by (simp add: numeral_2_eq_2 run_alone_Called run_alone_Returned start_def
          del: run_alone.simps)
  then show ?case by blast
next
  case (Suc n)
  show ?case
  proof (cases "truthy key")
    case False
    then have "run_alone 2 key arg (Called (Suc n)) w = Some (brave_run (Suc n) key arg w)"
      by (simp add: numeral_2_eq_2 run_alone_Called run_alone_Returned start_def
            del: run_alone.simps)
    then show ?thesis by blast
  next
    case True
    define w2 where "w2 = snd (client_get (brave_request key arg) (rate_limit w))"
    define r where "r = outcome (upstream w (length (sent w)))"
    from to_the_answer [OF True, of arg n w] obtain j where
      j: "\<And>m. run_alone (j + m) key arg (Called (Suc n)) w
               = run_alone m key arg (on_answer r n w2) w2"
      unfolding w2_def r_def by blast
    have run: "brave_run (Suc n) key arg w =
      (case r of
           Inl e \<Rightarrow> (Inl e, w2)
         | Inr response \<Rightarrow>
             if status_code response = 429 then
               (case retry_after_seconds response of
                  Inl e \<Rightarrow> (Inl e, w2)
                | Inr d \<Rightarrow> brave_run n key arg (sleep (real_of_int d) w2))
             else (final_result response, w2))"
      unfolding brave_run_Suc [OF True] w2_def [symmetric] Let_def r_def ..
    show ?thesis
    proof (cases "\<exists>d. retry_delay \<lparr>send_delay = 0, latency = 0, outcome = r\<rparr> = Some d")
      case False
      then have "\<exists>res. on_answer r n w2 = Returned res \<and> brave_run (Suc n) key arg w = (res, w2)"
        unfolding run
        by (auto simp: on_answer_def retry_delay_def split: sum.splits if_splits)
      then obtain res where "on_answer r n w2 = Returned res"
          "brave_run (Suc n) key arg w = (res, w2)" by blast
      then have "run_alone (j + 1) key arg (Called (Suc n)) w
                   = Some (brave_run (Suc n) key arg w)"
        unfolding j by simp
      then show ?thesis by blast
    next
      case True
      then obtain d response where d: "r = Inr response" "status_code response = 429"
          "retry_after_seconds response = Inr d"
        by (auto simp: retry_delay_def split: sum.splits if_splits)
      with run have again:
        "brave_run (Suc n) key arg w = brave_run n key arg (sleep (real_of_int d) w2)"
        by simp
      from Suc.IH [of "sleep (real_of_int d) w2"] obtain m where
        m: "run_alone m key arg (Called n) (sleep (real_of_int d) w2)
              = Some (brave_run n key arg (sleep (real_of_int d) w2))" by blast
      then obtain m' where m': "m = Suc m'" by (cases m) auto
      have b: "on_answer r n w2 = Backoff n (clock w2 + max (real_of_int d) 0)"
        using d by (simp add: on_answer_def)
      have "run_alone (j + m) key arg (Called (Suc n)) w
          = run_alone m key arg (Backoff n (clock w2 + max (real_of_int d) 0)) w2"
        by (simp only: j b)
      also have "\<dots> = run_alone (Suc m') key arg (Called n)
                           (w2\<lparr>clock := clock w2 + max (real_of_int d) 0\<rparr>)"
        unfolding m' by (rule run_alone_Backoff)
      also have "\<dots> = Some (brave_run (Suc n) key arg w)"
        using m by (simp add: m' sleep_def again del: run_alone.simps brave_run.simps)
      finally have "run_alone (j + m) key arg (Called (Suc n)) w
                      = Some (brave_run (Suc n) key arg w)" .
      then show ?thesis by blast
    qed
  qed
qed

text \<open>
  Claim C5, as stated, fails for invocations that overlap. Three invocations start in a
  fresh process. The first sends its request at time 0; the second and the third both find
  that no second has passed, both sleep until time 1, and both send at time 1: two requests
  at the same instant.
\<close>

theorem brave_overlap_counterexample:
  "rate_respected 0 (fresh_world three_ok)
   \<and> map fst (sent (snd (exec (Some ''key'') example_brave_args
                            [Resume 0, Resume 1, Resume 2, Advance 1, Resume 1, Resume 2]
                            ([Called 1, Called 1, Called 1], fresh_world three_ok))))
       = [0, 1, 1]
   \<and> \<not> spaced [0, 1, 1]"
  by (simp add: exec_def resume_def start_def send_request_def truthy_def fresh_world_def
        scripted_def three_ok_def Let_def RATE_LIMIT_def rate_respected_def datetime_now_def)

text \<open>
  The elapsed time is measured on the wall clock. When that clock is set forward between
  two invocations that do not overlap, the second sends at once: here the requests leave a
  tenth of a second apart.
\<close>

lemma brave_clock_set_forward:
  "map fst (sent (sequential 1 (Some ''key'')
                    [(0, example_brave_args), (0, example_brave_args)]
                    (clock_set_forward two_quick)))
     = [0, 1 / 10]"
  "\<not> spaced [0, 1 / 10]"
  "\<not> never_set_forward (clock_set_forward two_quick)"
proof -
  show "map fst (sent (sequential 1 (Some ''key'')
                    [(0, example_brave_args), (0, example_brave_args)]
                    (clock_set_forward two_quick)))
     = [0, 1 / 10]"
    by (simp add: clock_set_forward_def fresh_world_def scripted_def two_quick_def truthy_def
        rate_limit_def client_get_def Let_def ok_response_def sleep_def RATE_LIMIT_def
        final_result_def datetime_now_def)
  show "\<not> spaced [0, 1 / 10]" by (simp add: RATE_LIMIT_def)
  have "\<not> wall_offset (clock_set_forward two_quick) 1 \<le> wall_offset (clock_set_forward two_quick) 0"
    by (simp add: clock_set_forward_def fresh_world_def)
  moreover have "(0::real) \<le> 1" by simp
  ultimately show "\<not> never_set_forward (clock_set_forward two_quick)"
    unfolding never_set_forward_def by blast
qed

text \<open>
  What the rate limiter spaces are the stamps. When the first request takes half a second
  to leave and the second leaves at once, the stamps are a second apart and the requests
  half a second.
\<close>

lemma brave_uneven_send_delay:
  "map fst (sent (sequential 1 (Some ''key'')
                    [(0, example_brave_args), (0, example_brave_args)]
                    (fresh_world slow_then_quick)))
     = [1 / 2, 1]"
  "\<not> spaced [1 / 2, 1]"
  "\<not> steady_network c (fresh_world slow_then_quick)"
proof -
  show "map fst (sent (sequential 1 (Some ''key'')
                    [(0, example_brave_args), (0, example_brave_args)]
                    (fresh_world slow_then_quick)))
     = [1 / 2, 1]"
    by (simp add: fresh_world_def scripted_def slow_then_quick_def truthy_def
        rate_limit_def client_get_def Let_def ok_response_def sleep_def RATE_LIMIT_def
        final_result_def datetime_now_def)
  show "\<not> spaced [1 / 2, 1]" by (simp add: RATE_LIMIT_def)
  have "send_delay (upstream (fresh_world slow_then_quick) 0) = 1 / 2"
      "send_delay (upstream (fresh_world slow_then_quick) 1) = 0"
    by (simp_all add: fresh_world_def scripted_def slow_then_quick_def)
  then show "\<not> steady_network c (fresh_world slow_then_quick)"
    unfolding steady_network_def by (metis divide_eq_0_iff zero_neq_numeral zero_neq_one)
qed

text \<open>
  Claim C5, amended. Let invocations of \<open>WebBraveWebSearchTool.run\<close> not overlap, each
  awaited to its end before the next is called, let the wall clock read by
  \<open>datetime.now()\<close> never be set forward, and let every request leave the same time after
  its stamp in \<open>LAST_REQUEST_TIME\<close>. Then any two consecutive requests are sent at least
  \<open>1 / RATE_LIMIT\<close> seconds apart, retries included and however the invocations end. This
  holds from a fresh process, and from every world in which the requests sent so far are
  spaced and \<open>LAST_REQUEST_TIME\<close> is not earlier than the stamp of the last of them.
\<close>

theorem brave_run_sequential_spacing:
  assumes "rate_respected c w" and "never_set_forward w" and "steady_network c w"
  shows "spaced (map fst (sent (sequential n key calls w)))
         \<and> rate_respected c (sequential n key calls w)
         \<and> rate_respected c (fresh_world answers)"
  using sequential_keeps_rate [OF assms, of n key calls]
  by (simp add: rate_respected_def fresh_world_def)

lemma twice_throttled_steady: "steady_network 0 (fresh_world twice_throttled)"
proof -
  have "send_delay (upstream (fresh_world twice_throttled) i) = 0
        \<and> 0 \<le> latency (upstream (fresh_world twice_throttled) i)" for i
  proof -
    consider "i = 0" | "i = 1" | "i = 2" | "3 \<le> i" by linarith
    then show ?thesis
      by cases (simp_all add: fresh_world_def twice_throttled_def scripted_def)
  qed
  then show ?thesis by (simp add: steady_network_def)
qed

theorem brave_run_sequential_spacing_witness:
  "rate_respected 0 (fresh_world twice_throttled)
   \<and> never_set_forward (fresh_world twice_throttled)
   \<and> steady_network 0 (fresh_world twice_throttled)
   \<and> map fst (sent (sequential 3 (Some ''key'')
                       [(0, example_brave_args), (1 / 10, example_brave_args)]
                       (fresh_world twice_throttled)))
       = [0, 9 / 4, 7 / 2, 9 / 2]
   \<and> spaced [0, 9 / 4, 7 / 2, 9 / 2]"
proof -
  have f: "rate_respected 0 (fresh_world twice_throttled)"
    by (simp add: rate_respected_def fresh_world_def)
  have m: "never_set_forward (fresh_world twice_throttled)"
    by (simp add: never_set_forward_def fresh_world_def)
  have r: "map fst (sent (sequential 3 (Some ''key'')
                       [(0, example_brave_args), (1 / 10, example_brave_args)]
                       (fresh_world twice_throttled)))
       = [0, 9 / 4, 7 / 2, 9 / 2]"
    by (simp add: fresh_world_def scripted_simps truthy_def rate_limit_def client_get_def Let_def
        ok_response_def throttled_response_def numeral_3_eq_3 retry_after_seconds_def sleep_def
        RATE_LIMIT_def twice_throttled_def py_int_2 final_result_def datetime_now_def)
  show ?thesis
    using brave_run_sequential_spacing [OF f m twice_throttled_steady,
        of 3 "Some ''key''" "[(0, example_brave_args), (1 / 10, example_brave_args)]"
        twice_throttled]
      f m twice_throttled_steady
    unfolding r by simp
qed

subsection \<open>Number of items returned by the search tools\<close>

lemma ddg_item_length:
  "length (ddg_item unescape unidecode r) = (if usable unescape unidecode r then 1 else 0)"
  by (simp add: ddg_item_def usable_def Let_def)

lemma ddg_items_length:
  "length (concat (map (ddg_item unescape unidecode) rs))
     = length (filter (usable unescape unidecode) rs)"
  by (induction rs) (simp_all add: ddg_item_length)

text \<open>
  Claim C4, as stated, fails: when the upstream search yields no result, both tools return
  the empty sequence.
\<close>

theorem search_tools_empty_counterexample:
  "ddg_run empty_search no_change no_change example_ddg_args = []
   \<and> fst (brave_run 1 (Some ''key'') example_brave_args (fresh_world three_ok)) = Inr []"
  by (simp add: ddg_run_def empty_search_def example_ddg_args_def fresh_world_def scripted_def
        three_ok_def truthy_def rate_limit_def client_get_def Let_def ok_response_def
        final_result_def brave_request_def)

text \<open>
  Claim C4, amended. \<open>WebDuckduckgoSearchTool.run\<close> returns one item when the query is empty
  or the search raises, and otherwise one item per usable result, hence no item when there
  is no usable result. \<open>WebBraveWebSearchTool.run\<close>, given an API key and a response whose
  status is not 429, returns exactly one \<open>ErrorContent\<close> item when the status is not 200,
  whatever the body; when the status is 200 and the body is JSON from which \<open>run\<close> reads a
  list of results, it returns one item per result, hence no item when that list is empty.
\<close>

theorem search_tools_item_count:
  assumes "truthy key"
    and "outcome (upstream w (length (sent w))) = Inr response"
    and "status_code response \<noteq> 429"
    and "status_code response = 200 \<longrightarrow> json_results response = Inr results"
  shows "length (ddg_run search unescape unidecode a) =
           (if ddg_query a = '''' then 1
            else (case search (ddg_region a) (ddg_num a) (ddg_query a) of
                    Inl e \<Rightarrow> 1
                  | Inr rs \<Rightarrow> length (filter (usable unescape unidecode) rs)))
    \<and> fst (brave_run (Suc n) key arg w) =
           Inr (if status_code response = 200 then map format_result results
                else [ErrorContent (status_code response)
                        (''Brave API error: '' @ str_int (status_code response) @ '' ''
                           @ body_text response)])"
proof -
  have ddg: "length (ddg_run search unescape unidecode a) =
           (if ddg_query a = '''' then 1
            else (case search (ddg_region a) (ddg_num a) (ddg_query a) of
                    Inl e \<Rightarrow> 1
                  | Inr rs \<Rightarrow> length (filter (usable unescape unidecode) rs)))"
    by (simp add: ddg_run_def ddg_items_length split: sum.splits)
  have run: "fst (brave_run (Suc n) key arg w) = final_result response"
    using assms(1-3) by (simp add: brave_run_Suc Let_def del: brave_run.simps)
  have fin: "final_result response =
           Inr (if status_code response = 200 then map format_result results
                else [ErrorContent (status_code response)
                        (''Brave API error: '' @ str_int (status_code response) @ '' ''
                           @ body_text response)])"
    using assms(4) by (simp add: final_result_def)
  show ?thesis
    unfolding run fin using ddg by (rule conjI [OF _ refl])
qed

theorem search_tools_item_count_witness:
  "truthy (Some ''key'')
   \<and> outcome (upstream (fresh_world three_ok) (length (sent (fresh_world three_ok))))
       = Inr (ok_response [])
   \<and> status_code (ok_response []) \<noteq> 429
   \<and> status_code (ok_response []) = 200
   \<and> json_results (ok_response []) = Inr []
   \<and> length (ddg_run example_search no_change no_change example_ddg_args) = 1
   \<and> fst (brave_run 1 (Some ''key'') example_brave_args (fresh_world three_ok)) = Inr []"
proof -
  have k: "truthy (Some ''key'')" by (simp add: truthy_def)
  have o: "outcome (upstream (fresh_world three_ok) (length (sent (fresh_world three_ok))))
       = Inr (ok_response [])"
    by (simp add: fresh_world_def three_ok_def scripted_def)
  have s: "status_code (ok_response []) \<noteq> 429" "status_code (ok_response []) = 200"
    by (simp_all add: ok_response_def)
  have j: "json_results (ok_response []) = Inr []" by (simp add: ok_response_def)
  have i: "status_code (ok_response []) = 200 \<longrightarrow> json_results (ok_response []) = Inr []"
    using j by simp
  have q: "ddg_query example_ddg_args \<noteq> ''''" by (simp add: example_ddg_args_def)
  have u: "filter (usable no_change no_change) [[(''title'', ''Isabelle'')], [(''title'', ''  '')]]
      = [[(''title'', ''Isabelle'')]]"
    by (simp add: usable_def sanitize_text_def no_change_def strip_def dict_get_def isspace_def)
  show ?thesis
    using search_tools_item_count [OF k o s(1) i, of example_search no_change no_change
        example_ddg_args 0 example_brave_args] k o s j q u
    by (simp add: example_search_def)
qed

text \<open>
  The two cases of the Brave tool that the condition on the body separates: a response with
  status 500 whose body is not JSON gives one \<open>ErrorContent\<close> item, and a response with
  status 200 whose body cannot be read gives no item, the exception leaves \<open>run\<close>.
\<close>

lemma brave_run_error_status:
  "fst (brave_run 1 (Some ''key'') example_brave_args (fresh_world server_error))
     = Inr [ErrorContent 500 ''Brave API error: 500 Internal Server Error'']"
  by (simp add: fresh_world_def scripted_def server_error_def truthy_def rate_limit_def
        client_get_def Let_def error_response_def final_result_def str_int_def)
    code_simp

lemma brave_run_unreadable_body:
  assumes "truthy key" and "outcome (upstream w (length (sent w))) = Inr response"
    and "status_code response = 200" and "json_results response = Inl e"
  shows "fst (brave_run (Suc n) key arg w) = Inl e"
  using assms by (simp add: brave_run_Suc Let_def final_result_def del: brave_run.simps)

subsection \<open>Error items\<close>

text \<open>
  Claim C8 (the code departs from it). Called without a city and without coordinates,
  \<open>WeatherOpenMeteoForecastTool.run\<close> builds its error item with the keywords \<open>code\<close> and
  \<open>message\<close>: the field \<open>error\<close> is missing and \<open>message\<close> is not a field of \<open>ErrorContent\<close>.
  The handler at the end of that \<open>run\<close> and the two handlers of
  \<open>WeatherUSForecastTool.run\<close> do the same, whereas the two items of \<open>DallETool.run\<close> have
  the fields \<open>code\<close> and \<open>error\<close>.
\<close>

theorem weather_error_items_lack_error_field:
  "weather_open_meteo_run geocode_city forecast
      \<lparr>meteo_city = None, meteo_latitude = None, meteo_longitude = None\<rparr>
     = [Call ''ErrorContent''
          [(''code'', PInt 400),
           (''message'', PStr ''Either city or latitude/longitude must be provided'')]]
   \<and> list_all names_error_content
        (weather_open_meteo_run geocode_city forecast
           \<lparr>meteo_city = None, meteo_latitude = None, meteo_longitude = None\<rparr>)
   \<and> \<not> list_ex is_error_content
        (weather_open_meteo_run geocode_city forecast
           \<lparr>meteo_city = None, meteo_latitude = None, meteo_longitude = None\<rparr>)"
  by (simp add: weather_open_meteo_run_def truthy_def no_location_def names_error_content_def
        is_error_content_def is_int_def is_str_def)

theorem weather_error_items_lack_error_field_witness:
  "list_all names_error_content
     (weather_open_meteo_run unknown_city no_forecast
        \<lparr>meteo_city = None, meteo_latitude = None, meteo_longitude = None\<rparr>)
   \<and> \<not> list_ex is_error_content
        (weather_open_meteo_run unknown_city no_forecast
           \<lparr>meteo_city = None, meteo_latitude = None, meteo_longitude = None\<rparr>)"
  using weather_error_items_lack_error_field [of unknown_city no_forecast]
  by blast

lemma weather_open_meteo_handler_item:
  "weather_open_meteo_run unknown_city no_forecast
      \<lparr>meteo_city = Some ''Atlantis'', meteo_latitude = None, meteo_longitude = None\<rparr>
     = [Call ''ErrorContent''
          [(''code'', PInt 500),
           (''message'', PStr ''Weather retrieval error: Could not find location for city: Atlantis'')]]"
  by (simp add: weather_open_meteo_run_def truthy_def unknown_city_def)

lemma weather_us_forecast_error_items:
  "weather_us_forecast_run unknown_city nws_down
      (Inr \<lparr>forecast_city = Some ''Atlantis'', forecast_latitude = None,
            forecast_longitude = None\<rparr>)
     = Inr [Call ''ErrorContent''
              [(''code'', PInt 400),
               (''message'', PStr ''Could not find location for city: Atlantis'')],
            Call ''TextContent''
              [(''type'', PStr ''text''),
               (''text'', PStr ''Error: Either city or latitude/longitude must be provided'')]]"
  by (simp add: weather_us_forecast_run_def truthy_def unknown_city_def)

lemma dalle_error_items:
  "list_all is_error_content (dalle_run image_refused (Some ''sk-1'') ''a red square on white'')"
  by (simp add: dalle_run_def truthy_def image_refused_def is_error_content_def is_int_def
        is_str_def)

end
